theory Spec2Isabelle
  imports Main
begin

section \<open>Version comparison (compareSemanticVersions)\<close>

text \<open>
  \<^verbatim>\<open>version.split('.')\<close>: the pieces between the separators, in order. The
  empty string gives one empty piece, and two adjacent separators give an empty
  piece between them.
\<close>

fun split_on :: "char \<Rightarrow> string \<Rightarrow> string list" where
  "split_on c [] = [[]]"
| "split_on c (x # xs) =
     (if x = c then [] # split_on c xs
      else (case split_on c xs of
              [] \<Rightarrow> [[x]]
            | w # ws \<Rightarrow> (x # w) # ws))"

text \<open>
  A JavaScript number as far as version components need it: \<open>None\<close> is NaN,
  \<open>Some n\<close> the non-negative integer \<open>n\<close>. \<^verbatim>\<open>Number(s)\<close> is modelled on the
  decimal fragment only: the empty string is 0 and a string of decimal digits
  is its value. JavaScript also reads white space, signs, exponents, radix
  prefixes and Infinity, and rounds above \<open>2^53\<close>; on such components the
  definition below (which gives NaN, or the unrounded value) does not follow
  JavaScript, and every statement about the comparison is made for versions
  whose components are decimal digits with a value below \<open>2^53\<close>
  (\<open>well_formed_version\<close> below).
\<close>

type_synonym js_number = "nat option"

definition digit_value :: "char \<Rightarrow> nat option" where
  "digit_value c =
     (let n = (of_char c :: nat)
      in if 48 \<le> n \<and> n \<le> 57 then Some (n - 48) else None)"

fun decimal_from :: "nat \<Rightarrow> string \<Rightarrow> js_number" where
  "decimal_from acc [] = Some acc"
| "decimal_from acc (c # cs) =
     (case digit_value c of
        None \<Rightarrow> None
      | Some d \<Rightarrow> decimal_from (10 * acc + d) cs)"

definition Number :: "string \<Rightarrow> js_number" where
  "Number s = decimal_from 0 s"

definition parseVersion :: "string \<Rightarrow> js_number list" where
  "parseVersion version = map Number (split_on CHR ''.'' version)"

text \<open>
  \<^verbatim>\<open>v[i] || 0\<close>: an index past the end reads \<^verbatim>\<open>undefined\<close>, and \<^verbatim>\<open>undefined\<close>,
  NaN and 0 are all falsy, so each of them gives 0.
\<close>

definition component_or_0 :: "js_number list \<Rightarrow> nat \<Rightarrow> nat" where
  "component_or_0 v i =
     (if i < length v then (case v ! i of None \<Rightarrow> 0 | Some n \<Rightarrow> n) else 0)"

text \<open>The \<^verbatim>\<open>for\<close> loop, from index \<open>i\<close> on.\<close>

function compare_from :: "js_number list \<Rightarrow> js_number list \<Rightarrow> nat \<Rightarrow> int" where
  "compare_from v1 v2 i =
     (if i < max (length v1) (length v2) then
        (let num1 = component_or_0 v1 i;
             num2 = component_or_0 v2 i
         in if num1 > num2 then 1
            else if num1 < num2 then - 1
            else compare_from v1 v2 (i + 1))
      else 0)"
  by pat_completeness auto
termination
  by (relation "measure (\<lambda>(v1, v2, i). max (length v1) (length v2) - i)") auto

declare compare_from.simps [simp del]

definition compareSemanticVersions :: "string \<Rightarrow> string \<Rightarrow> int" where
  "compareSemanticVersions version1 version2 =
     (let v1 = parseVersion version1;
          v2 = parseVersion version2
      in compare_from v1 v2 0)"

text \<open>
  The versions on which the model of \<^verbatim>\<open>Number\<close> is exact: every component
  between the dots consists of decimal digits only (it may be empty, which
  \<^verbatim>\<open>Number\<close> reads as 0) and its value is below \<open>2^53\<close>.
\<close>

definition is_digit :: "char \<Rightarrow> bool" where
  "is_digit c = (48 \<le> (of_char c :: nat) \<and> (of_char c :: nat) \<le> 57)"

definition decimal_value :: "string \<Rightarrow> nat" where
  "decimal_value s = foldl (\<lambda>acc c. 10 * acc + ((of_char c :: nat) - 48)) 0 s"

definition well_formed_component :: "string \<Rightarrow> bool" where
  "well_formed_component s = (list_all is_digit s \<and> decimal_value s < 2 ^ 53)"

definition well_formed_version :: "string \<Rightarrow> bool" where
  "well_formed_version v = list_all well_formed_component (split_on CHR ''.'' v)"

text \<open>
  The comparison in the specification's words: each version is split on the
  dot into a sequence of integers; both sequences are read up to the length of
  the longer one, a missing trailing component as 0; the first position where
  they differ decides, and 0 is the result when there is none.
\<close>

fun first_difference :: "nat list \<Rightarrow> nat list \<Rightarrow> int" where
  "first_difference (x # xs) (y # ys) =
     (if x > y then 1 else if x < y then - 1 else first_difference xs ys)"
| "first_difference _ _ = 0"

definition pad_zeros :: "nat list \<Rightarrow> nat \<Rightarrow> nat list" where
  "pad_zeros xs n = xs @ replicate (n - length xs) 0"

definition compareVersions_spec :: "string \<Rightarrow> string \<Rightarrow> int" where
  "compareVersions_spec a b =
     (let xs = map decimal_value (split_on CHR ''.'' a);
          ys = map decimal_value (split_on CHR ''.'' b);
          n = max (length xs) (length ys)
      in first_difference (pad_zeros xs n) (pad_zeros ys n))"

section \<open>Strings and errors\<close>

text \<open>\<^verbatim>\<open>s.startsWith(p)\<close> and \<^verbatim>\<open>s.includes(sub)\<close> on strings.\<close>

fun startsWith :: "string \<Rightarrow> string \<Rightarrow> bool" where
  "startsWith s [] = True"
| "startsWith [] (p # ps) = False"
| "startsWith (c # cs) (p # ps) = (c = p \<and> startsWith cs ps)"

fun includes_str :: "string \<Rightarrow> string \<Rightarrow> bool" where
  "includes_str [] sub = (sub = [])"
| "includes_str (c # cs) sub = (startsWith (c # cs) sub \<or> includes_str cs sub)"

text \<open>
  A thrown value: an error object with its name and its message.
  \<^verbatim>\<open>new Error(m)\<close> is \<open>JsError ''Error'' m\<close>; \<^verbatim>\<open>toString()\<close> follows
  \<^verbatim>\<open>Error.prototype.toString\<close>.
\<close>

datatype error = JsError string string

fun toString :: "error \<Rightarrow> string" where
  "toString (JsError n m) =
     (if n = [] then m else if m = [] then n else n @ '': '' @ m)"

definition new_Error :: "string \<Rightarrow> error" where
  "new_Error m = JsError ''Error'' m"

text \<open>Sequencing of steps that may throw, over a state: a throw skips the rest.\<close>

definition and_then ::
  "(error + 'a) \<times> 's \<Rightarrow> ('a \<Rightarrow> 's \<Rightarrow> (error + 'b) \<times> 's) \<Rightarrow> (error + 'b) \<times> 's" where
  "and_then r f = (case r of (Inl e, s) \<Rightarrow> (Inl e, s) | (Inr a, s) \<Rightarrow> f a s)"

section \<open>Data model\<close>

text \<open>
  Modelled from the spec: \<^verbatim>\<open>NodeInfo["l2"]\<close>, a type of the host library, is the
  network descriptor with an integer \<^verbatim>\<open>chainId\<close> and a string \<^verbatim>\<open>rpcUrl\<close>, the
  two fields the module reads.
\<close>

record L2Network =
  chainId :: int
  rpcUrl :: string

text \<open>\<^verbatim>\<open>type ModuleConfig = { version?: string; l2Network?: NodeInfo["l2"] }\<close>\<close>

record ModuleConfig =
  version :: "string option"
  l2Network :: "L2Network option"

text \<open>
  An entry of the list that the host's \<^verbatim>\<open>docker.compose.status\<close> returns; the
  module reads the length of the list and the \<^verbatim>\<open>isRunning\<close> field.
\<close>

record container =
  container_name :: string
  container_isRunning :: bool

text \<open>
  What a file holds: a text, a copy of a file of the package, or the rendered
  runtime configuration, which is the fixed template with the given
  \<^verbatim>\<open>rpcUrl\<close> and \<^verbatim>\<open>l2ChainId\<close>.
\<close>

datatype file_content =
  Text string
| CopyOf string
| RuntimeConfig L2Network

text \<open>An entry of the \<^verbatim>\<open>items\<close> array of the indexing service's \<^verbatim>\<open>/blocks\<close> answer.\<close>

record block =
  number :: "int option"

text \<open>
  The \<^verbatim>\<open>result\<close> field of the answer to \<^verbatim>\<open>eth_blockNumber\<close>, and the answer
  with its rendering by \<^verbatim>\<open>JSON.stringify\<close>.
\<close>

datatype json = JUndefined | JNull | JBool bool | JString string

record rpc_response =
  result :: json
  stringified :: string

text \<open>
  What the surroundings answer. Each field is what the call of that name
  returns (\<open>Inr\<close>) or throws (\<open>Inl\<close>, or \<open>Some\<close> for a call without a value).
  The two HTTP queries of the readiness loop are indexed by the iteration that
  makes them. A rejected request and a body from which the field cannot be read
  (a TypeError) are both the \<open>Inl\<close> answer of the query: the source throws both
  from the same place.
\<close>

record environment =
  dataDirPath :: string
  localFolder :: string
  EOL :: string
  package_name :: string
  getNodeInfo :: "error + L2Network"
  getLatestReleaseVersion :: "string \<Rightarrow> error + string"
  mkdirSync :: "string \<Rightarrow> error option"
  copyFileSync :: "string \<Rightarrow> string \<Rightarrow> error option"
  writeFileSync :: "string \<Rightarrow> file_content \<Rightarrow> error option"
  compose_create :: "string \<Rightarrow> error option"
  compose_status :: "string \<Rightarrow> error + container list"
  executeCommand :: "string \<Rightarrow> error + string"
  fetch_blocks :: "nat \<Rightarrow> error + block list"
  fetch_rpc :: "nat \<Rightarrow> string \<Rightarrow> error + rpc_response"

text \<open>
  What the module changes: the persisted configuration, the cached version of
  the process, the mutable entry of the runtime-configuration template, the
  directories and files on disk, and the shell commands issued so far.
\<close>

record module_state =
  moduleConfig :: ModuleConfig
  latestVersion :: "string option"
  appConfigTemplate :: L2Network
  directories :: "string set"
  files :: "string \<Rightarrow> file_content option"
  commands :: "string list"

section \<open>The module (SetupModule)\<close>

text \<open>
  The class as its latest revision has it, the one with the readiness loop. The
  revision before it differs in \<^verbatim>\<open>install\<close> only by not wrapping the error of
  writing the environment file, and in \<^verbatim>\<open>cleanupIndexedData\<close> by spelling
  out the volume name and calling \<^verbatim>\<open>docker-compose\<close>; the logger calls are left
  out.
\<close>

definition REPO_URL :: string where
  "REPO_URL = ''matter-labs/block-explorer''"

definition APP_RUNTIME_CONFIG_PATH :: string where
  "APP_RUNTIME_CONFIG_PATH = ''/usr/src/app/packages/app/dist/config.js''"

definition DOCKER_DATABASE_VOLUME_NAME :: string where
  "DOCKER_DATABASE_VOLUME_NAME = ''postgres''"

text \<open>\<^verbatim>\<open>path.join\<close> of a directory and a relative name, without normalising.\<close>

definition path_join :: "string \<Rightarrow> string \<Rightarrow> string" where
  "path_join dir fileName = dir @ ''/'' @ fileName"

definition getLocalFilePath :: "environment \<Rightarrow> string \<Rightarrow> string" where
  "getLocalFilePath env fileName = path_join (localFolder env) fileName"

definition getInstalledModuleFilePath :: "environment \<Rightarrow> string \<Rightarrow> string" where
  "getInstalledModuleFilePath env fileName = path_join (dataDirPath env) fileName"

definition installedComposeFile :: "environment \<Rightarrow> string" where
  "installedComposeFile env = getInstalledModuleFilePath env ''docker-compose.yml''"

definition getL2Network :: "environment \<Rightarrow> error + L2Network" where
  "getL2Network env = getNodeInfo env"

text \<open>\<^verbatim>\<open>!x\<close> for an optional string: \<^verbatim>\<open>undefined\<close> and the empty string are falsy.\<close>

definition falsy :: "string option \<Rightarrow> bool" where
  "falsy x = (case x of None \<Rightarrow> True | Some str \<Rightarrow> str = [])"

definition isInstalled :: "environment \<Rightarrow> module_state \<Rightarrow> error + bool" where
  "isInstalled env s =
     (if falsy (version (moduleConfig s)) \<or> l2Network (moduleConfig s) = None
      then Inr False
      else (case l2Network (moduleConfig s) of
              None \<Rightarrow> Inr False
            | Some stored \<Rightarrow>
                (case getL2Network env of
                   Inl e \<Rightarrow> Inl e
                 | Inr net \<Rightarrow>
                     if chainId net \<noteq> chainId stored \<or> rpcUrl net \<noteq> rpcUrl stored
                     then Inr False
                     else (case compose_status env (installedComposeFile env) of
                             Inl e \<Rightarrow> Inl e
                           | Inr cs \<Rightarrow> Inr (if length cs \<noteq> 0 then True else False)))))"

definition isRunning :: "environment \<Rightarrow> module_state \<Rightarrow> error + bool" where
  "isRunning env s =
     (case compose_status env (installedComposeFile env) of
        Inl e \<Rightarrow> Inl e
      | Inr cs \<Rightarrow> Inr (list_ex container_isRunning cs))"

text \<open>\<^verbatim>\<open>helpers.executeCommand\<close>: the command is issued, then its answer is known.\<close>

definition exec :: "environment \<Rightarrow> string \<Rightarrow> module_state \<Rightarrow> (error + string) \<times> module_state" where
  "exec env cmd s = (executeCommand env cmd, s\<lparr>commands := commands s @ [cmd]\<rparr>)"

definition fs_mkdirSync :: "environment \<Rightarrow> string \<Rightarrow> module_state \<Rightarrow> (error + unit) \<times> module_state" where
  "fs_mkdirSync env dir s =
     (case mkdirSync env dir of
        Some e \<Rightarrow> (Inl e, s)
      | None \<Rightarrow> (Inr (), s\<lparr>directories := insert dir (directories s)\<rparr>))"

definition fs_copyFileSync ::
  "environment \<Rightarrow> string \<Rightarrow> string \<Rightarrow> module_state \<Rightarrow> (error + unit) \<times> module_state" where
  "fs_copyFileSync env src dst s =
     (case copyFileSync env src dst of
        Some e \<Rightarrow> (Inl e, s)
      | None \<Rightarrow> (Inr (), s\<lparr>files := (files s)(dst \<mapsto> CopyOf src)\<rparr>))"

definition fs_writeFileSync ::
  "environment \<Rightarrow> string \<Rightarrow> file_content \<Rightarrow> module_state \<Rightarrow> (error + unit) \<times> module_state" where
  "fs_writeFileSync env file content s =
     (case writeFileSync env file content of
        Some e \<Rightarrow> (Inl e, s)
      | None \<Rightarrow> (Inr (), s\<lparr>files := (files s)(file \<mapsto> content)\<rparr>))"

definition docker_compose_create ::
  "environment \<Rightarrow> string \<Rightarrow> module_state \<Rightarrow> (error + unit) \<times> module_state" where
  "docker_compose_create env file s =
     (case compose_create env file of Some e \<Rightarrow> (Inl e, s) | None \<Rightarrow> (Inr (), s))"

text \<open>
  Modelled from the spec: \<^verbatim>\<open>setModuleConfig\<close> belongs to the host library, a
  persisted per-module configuration with get and set; it replaces the
  persisted record.
\<close>

definition setModuleConfig :: "ModuleConfig \<Rightarrow> module_state \<Rightarrow> module_state" where
  "setModuleConfig c s = s\<lparr>moduleConfig := c\<rparr>"

definition getLatestVersion :: "environment \<Rightarrow> module_state \<Rightarrow> (error + string) \<times> module_state" where
  "getLatestVersion env s =
     (if falsy (latestVersion s) then
        (case getLatestReleaseVersion env REPO_URL of
           Inl e \<Rightarrow> (Inl e, s)
         | Inr v \<Rightarrow> (Inr v, s\<lparr>latestVersion := Some v\<rparr>))
      else (case latestVersion s of
              None \<Rightarrow> (Inr [], s)
            | Some v \<Rightarrow> (Inr v, s)))"

definition applyAppConfig ::
  "environment \<Rightarrow> L2Network \<Rightarrow> module_state \<Rightarrow> (error + unit) \<times> module_state" where
  "applyAppConfig env net s0 =
     (let s1 = s0\<lparr>appConfigTemplate :=
                   (appConfigTemplate s0)\<lparr>rpcUrl := rpcUrl net, chainId := chainId net\<rparr>\<rparr>;
          appConfigPath = getInstalledModuleFilePath env ''app-config.js'';
          appConfig = RuntimeConfig (appConfigTemplate s1)
      in and_then
           (case fs_writeFileSync env appConfigPath appConfig s1 of
              (Inl e, s2) \<Rightarrow>
                (Inl (new_Error (''Error writing to app config file: '' @ toString e)), s2)
            | (Inr u, s2) \<Rightarrow> (Inr u, s2))
           (\<lambda>_ s2.
              and_then
                (exec env (''docker compose cp '' @ appConfigPath @ '' app:''
                           @ APP_RUNTIME_CONFIG_PATH) s2)
                (\<lambda>commandError s3.
                   if commandError \<noteq> []
                   then (Inl (new_Error (''Error while copying app config to the app container: ''
                                         @ commandError)), s3)
                   else (Inr (), s3))))"

text \<open>
  \<^verbatim>\<open>l2Network.rpcUrl.split(":").at(-1) || "3050"\<close>: the last piece, or the
  fallback when there is none or it is empty.
\<close>

definition at_last :: "'a list \<Rightarrow> 'a option" where
  "at_last xs = (case xs of [] \<Rightarrow> None | _ # _ \<Rightarrow> Some (last xs))"

definition rpcPort_of :: "string \<Rightarrow> string" where
  "rpcPort_of url =
     (case at_last (split_on CHR '':'' url) of
        None \<Rightarrow> ''3050''
      | Some piece \<Rightarrow> if piece = [] then ''3050'' else piece)"

definition envFileContent :: "environment \<Rightarrow> string \<Rightarrow> string \<Rightarrow> string" where
  "envFileContent env v rpcPort = ''VERSION='' @ v @ EOL env @ ''RPC_PORT='' @ rpcPort"

text \<open>The body of the \<^verbatim>\<open>try\<close> block of \<^verbatim>\<open>install\<close>.\<close>

definition install_try :: "environment \<Rightarrow> module_state \<Rightarrow> (error + unit) \<times> module_state" where
  "install_try env s0 =
     and_then (getL2Network env, s0) (\<lambda>net s.
     and_then (getLatestVersion env s) (\<lambda>v s.
     and_then (if dataDirPath env \<in> directories s then (Inr (), s)
               else fs_mkdirSync env (dataDirPath env) s) (\<lambda>_ s.
     and_then (fs_copyFileSync env (getLocalFilePath env ''../docker-compose.yml'')
                 (installedComposeFile env) s) (\<lambda>_ s.
     and_then (let rpcPort = rpcPort_of (rpcUrl net)
               in case fs_writeFileSync env (getInstalledModuleFilePath env ''.env'')
                         (Text (envFileContent env v rpcPort)) s of
                    (Inl e, s') \<Rightarrow>
                      (Inl (new_Error (''Error writing to .env file: '' @ toString e)), s')
                  | (Inr u, s') \<Rightarrow> (Inr u, s')) (\<lambda>_ s.
     and_then (docker_compose_create env (installedComposeFile env) s) (\<lambda>_ s.
     and_then (applyAppConfig env net s) (\<lambda>_ s.
       (Inr (), setModuleConfig
                  ((moduleConfig s)\<lparr>version := Some v, l2Network := Some net\<rparr>) s))))))))"

definition permission_hint :: error where
  "permission_hint = new_Error
     ''Not enough permissions to create necessary files. Please run console in administrator mode and try again.''"

text \<open>\<^verbatim>\<open>install\<close>: the \<^verbatim>\<open>try\<close> block under its \<^verbatim>\<open>catch\<close>.\<close>

definition install :: "environment \<Rightarrow> module_state \<Rightarrow> (error + unit) \<times> module_state" where
  "install env s0 =
     (case install_try env s0 of
        (Inl e, s) \<Rightarrow>
          if includes_str (toString e) ''operation not permitted''
          then (Inl permission_hint, s)
          else (Inl e, s)
      | (Inr u, s) \<Rightarrow> (Inr u, s))"

text \<open>
  \<^verbatim>\<open>Promise.all\<close> over the started commands: it rejects when one of them does
  (here with the leftmost rejection), after all of them were issued.
\<close>

fun exec_all :: "environment \<Rightarrow> string list \<Rightarrow> module_state \<Rightarrow> (error + string list) \<times> module_state" where
  "exec_all env [] s = (Inr [], s)"
| "exec_all env (cmd # cmds) s =
     (case exec env cmd s of
        (r, s1) \<Rightarrow>
          (case exec_all env cmds s1 of
             (rs, s2) \<Rightarrow>
               (case r of
                  Inl e \<Rightarrow> (Inl e, s2)
                | Inr out \<Rightarrow>
                    (case rs of Inl e \<Rightarrow> (Inl e, s2) | Inr outs \<Rightarrow> (Inr (out # outs), s2)))))"

definition cleanupIndexedData :: "environment \<Rightarrow> module_state \<Rightarrow> (error + unit) \<times> module_state" where
  "cleanupIndexedData env s0 =
     and_then
       (exec_all env
          (map (\<lambda>serviceName. ''docker compose rm -fsv '' @ serviceName)
               [''worker'', ''api'', ''postgres'']) s0)
       (\<lambda>_ s.
          let fullDatabaseName = package_name env @ ''_'' @ DOCKER_DATABASE_VOLUME_NAME
          in and_then (exec env ''docker volume ls'' s) (\<lambda>volumes s.
               if includes_str volumes fullDatabaseName
               then and_then (exec env (''docker volume rm '' @ fullDatabaseName) s)
                      (\<lambda>_ s. (Inr (), s))
               else (Inr (), s)))"

section \<open>The readiness loop\<close>

text \<open>
  \<^verbatim>\<open>parseInt(x, 16)\<close>: the argument as a string, leading white space dropped
  (the white space and line terminators below code point 256), then an optional
  sign, an optional \<^verbatim>\<open>0x\<close>, and the longest run of hexadecimal digits; NaN
  (\<open>None\<close>) when that run is empty. Heights are integers: the rounding of
  numbers above \<open>2^53\<close> is left out.
\<close>

fun json_ToString :: "json \<Rightarrow> string" where
  "json_ToString JUndefined = ''undefined''"
| "json_ToString JNull = ''null''"
| "json_ToString (JBool b) = (if b then ''true'' else ''false'')"
| "json_ToString (JString str) = str"

definition is_white_space :: "char \<Rightarrow> bool" where
  "is_white_space c = ((of_char c :: nat) \<in> {9, 10, 11, 12, 13, 32, 160})"

definition hex_value :: "char \<Rightarrow> nat option" where
  "hex_value c =
     (let n = (of_char c :: nat)
      in if 48 \<le> n \<and> n \<le> 57 then Some (n - 48)
         else if 97 \<le> n \<and> n \<le> 102 then Some (n - 87)
         else if 65 \<le> n \<and> n \<le> 70 then Some (n - 55)
         else None)"

fun hex_digits :: "string \<Rightarrow> nat list" where
  "hex_digits [] = []"
| "hex_digits (c # cs) =
     (case hex_value c of None \<Rightarrow> [] | Some d \<Rightarrow> d # hex_digits cs)"

definition hex_number :: "nat list \<Rightarrow> nat" where
  "hex_number ds = foldl (\<lambda>acc d. 16 * acc + d) 0 ds"

definition strip_0x :: "string \<Rightarrow> string" where
  "strip_0x str =
     (if startsWith str ''0x'' \<or> startsWith str ''0X'' then drop 2 str else str)"

definition parseInt16 :: "string \<Rightarrow> int option" where
  "parseInt16 inputString =
     (let S = dropWhile is_white_space inputString;
          sign = (if startsWith S ''-'' then - 1 else (1::int));
          S1 = (if startsWith S ''+'' \<or> startsWith S ''-'' then drop 1 S else S);
          Z = hex_digits (strip_0x S1)
      in if Z = [] then None else Some (sign * int (hex_number Z)))"

definition getNodeLatestBlockNumber :: "environment \<Rightarrow> nat \<Rightarrow> error + int" where
  "getNodeLatestBlockNumber env t =
     (case getL2Network env of
        Inl e \<Rightarrow> Inl e
      | Inr net \<Rightarrow>
          (case (case fetch_rpc env t (rpcUrl net) of
                   Inl e \<Rightarrow> Inl e
                 | Inr response \<Rightarrow>
                     (case parseInt16 (json_ToString (result response)) of
                        None \<Rightarrow> Inl (new_Error (''Unexpected response from L2 node: ''
                                                 @ stringified response))
                      | Some blockNumber \<Rightarrow> Inr blockNumber)) of
             Inl e \<Rightarrow> Inl (new_Error (''Failed to get latest block number from L2 node: ''
                                       @ toString e))
           | Inr blockNumber \<Rightarrow> Inr blockNumber))"

text \<open>\<^verbatim>\<open>response.items[0]?.number ?? 0\<close>\<close>

definition getApiLatestBlockNumber :: "environment \<Rightarrow> nat \<Rightarrow> error + int" where
  "getApiLatestBlockNumber env t =
     (case fetch_blocks env t of
        Inl e \<Rightarrow> Inl e
      | Inr items \<Rightarrow>
          (case items of
             [] \<Rightarrow> Inr 0
           | b # _ \<Rightarrow> (case number b of None \<Rightarrow> Inr 0 | Some n \<Rightarrow> Inr n)))"

text \<open>
  What the loop shows and how long it sleeps, in order. \<open>Progress a n\<close> is the
  spinner text "Blocks processed: a/n".
\<close>

datatype event =
  SpinnerStart string
| SpinnerSucceed string
| SpinnerFail string
| Progress int int
| Sleep nat

text \<open>
  The \<^verbatim>\<open>while (true)\<close> loop from iteration \<open>t\<close> on, with the events so far. It
  need not return: \<open>None\<close> is the run that goes on forever.
\<close>

partial_function (option) indexing_loop ::
  "environment \<Rightarrow> nat \<Rightarrow> event list \<Rightarrow> ((error + unit) \<times> event list) option" where
  "indexing_loop env t evs =
     (case getApiLatestBlockNumber env t of
        Inl e \<Rightarrow> indexing_loop env (t + 1) (evs @ [Sleep 1000])
      | Inr apiLatestBlockNumber \<Rightarrow>
          (case getNodeLatestBlockNumber env t of
             Inl e \<Rightarrow>
               Some (Inl e, evs @ [SpinnerFail ''Failed to get node latest block number''])
           | Inr nodeLatestBlockNumber \<Rightarrow>
               if apiLatestBlockNumber = nodeLatestBlockNumber
               then Some (Inr (), evs @ [SpinnerSucceed ''Block Explorer initialized''])
               else indexing_loop env (t + 1)
                      (evs @ [Progress apiLatestBlockNumber nodeLatestBlockNumber, Sleep 1000])))"

definition waitForFullIndexing :: "environment \<Rightarrow> ((error + unit) \<times> event list) option" where
  "waitForFullIndexing env =
     indexing_loop env 0 [SpinnerStart ''Initializing Block Explorer API...'']"

declare indexing_loop.simps [code]

section \<open>Describing a run of the readiness loop\<close>

text \<open>
  Three things can happen in iteration \<open>t\<close>. The iteration repeats: the
  indexing service's query failed, or both heights are known and differ. The
  heights are equal. Or the query of the target network failed after the
  indexing service answered.
\<close>

definition repeats :: "environment \<Rightarrow> nat \<Rightarrow> bool" where
  "repeats env t =
     (case getApiLatestBlockNumber env t of
        Inl e \<Rightarrow> True
      | Inr a \<Rightarrow> (case getNodeLatestBlockNumber env t of Inl e \<Rightarrow> False | Inr n \<Rightarrow> a \<noteq> n))"

definition heights_equal :: "environment \<Rightarrow> nat \<Rightarrow> bool" where
  "heights_equal env t =
     (case getApiLatestBlockNumber env t of
        Inl e \<Rightarrow> False
      | Inr a \<Rightarrow> (case getNodeLatestBlockNumber env t of Inl e \<Rightarrow> False | Inr n \<Rightarrow> a = n))"

definition node_failure :: "environment \<Rightarrow> nat \<Rightarrow> error \<Rightarrow> bool" where
  "node_failure env t err =
     (case getApiLatestBlockNumber env t of
        Inl e \<Rightarrow> False
      | Inr a \<Rightarrow> getNodeLatestBlockNumber env t = Inl err)"

text \<open>
  The run that starts at iteration \<open>t\<close> ends in iteration \<open>k\<close> with \<open>r\<close>: all
  iterations before \<open>k\<close> repeat, and iteration \<open>k\<close> returns (\<open>Inr\<close>) or throws
  (\<open>Inl\<close>).
\<close>

definition returns_at :: "environment \<Rightarrow> nat \<Rightarrow> nat \<Rightarrow> error + unit \<Rightarrow> bool" where
  "returns_at env t k r =
     (t \<le> k \<and> list_all (repeats env) [t..<k]
      \<and> (case r of Inl e \<Rightarrow> node_failure env k e | Inr u \<Rightarrow> heights_equal env k))"

text \<open>
  The ways in which \<^verbatim>\<open>getNodeLatestBlockNumber\<close> can fail, read off its
  inputs: the network is not resolved, the request fails, or the result does
  not parse.
\<close>

definition node_query_fails :: "environment \<Rightarrow> nat \<Rightarrow> bool" where
  "node_query_fails env t =
     (case getL2Network env of
        Inl e \<Rightarrow> True
      | Inr net \<Rightarrow>
          (case fetch_rpc env t (rpcUrl net) of
             Inl e \<Rightarrow> True
           | Inr response \<Rightarrow> parseInt16 (json_ToString (result response)) = None))"

section \<open>Describing a run of install and of the cleanup\<close>

text \<open>
  A run keeps the persisted record \<open>c\<close> unless it returns normally.
\<close>

definition unchanged_on_error :: "ModuleConfig \<Rightarrow> (error + 'a) \<times> module_state \<Rightarrow> bool" where
  "unchanged_on_error c x =
     (case fst x of Inl e \<Rightarrow> moduleConfig (snd x) = c | Inr u \<Rightarrow> True)"

text \<open>
  The filesystem error that file provisioning runs into, if it is reached and
  one of its steps (creating the folder, copying the manifest, writing the
  environment file) fails.
\<close>

definition provisioning_error :: "environment \<Rightarrow> module_state \<Rightarrow> error option" where
  "provisioning_error env s =
     (case getL2Network env of
        Inl e \<Rightarrow> None
      | Inr net \<Rightarrow>
          (case getLatestVersion env s of
             (Inl e, s1) \<Rightarrow> None
           | (Inr v, s1) \<Rightarrow>
               (case (if dataDirPath env \<in> directories s1 then None
                      else mkdirSync env (dataDirPath env)) of
                  Some e \<Rightarrow> Some e
                | None \<Rightarrow>
                    (case copyFileSync env (getLocalFilePath env ''../docker-compose.yml'')
                            (installedComposeFile env) of
                       Some e \<Rightarrow> Some e
                     | None \<Rightarrow>
                         writeFileSync env (getInstalledModuleFilePath env ''.env'')
                           (Text (envFileContent env v (rpcPort_of (rpcUrl net))))))))"

text \<open>The three container removals that the cleanup starts with.\<close>

definition rm_services :: "string list" where
  "rm_services = [''docker compose rm -fsv worker'', ''docker compose rm -fsv api'',
                  ''docker compose rm -fsv postgres'']"

section \<open>Example surroundings\<close>

text \<open>
  A host in which every call succeeds. The indexing service is unreachable in
  iteration 0, has indexed block 3 in iteration 1 and block 5 from then on; the
  target network is at block 5.
\<close>

definition example_env :: environment where
  \<open>example_env =
     \<lparr> dataDirPath = ''/home/user/.local/share/zkcli-block-explorer'',
       localFolder = ''/usr/lib/node_modules/zkcli-block-explorer/bin'',
       EOL = [CHR 0x0A],
       package_name = ''zkcli-block-explorer'',
       getNodeInfo = Inr \<lparr>chainId = 260, rpcUrl = ''http://127.0.0.1:8011''\<rparr>,
       getLatestReleaseVersion = (\<lambda>repo. Inr ''v0.4.0''),
       mkdirSync = (\<lambda>dir. None),
       copyFileSync = (\<lambda>src dst. None),
       writeFileSync = (\<lambda>file content. None),
       compose_create = (\<lambda>file. None),
       compose_status = (\<lambda>file.
         Inr [\<lparr>container_name = ''zkcli-block-explorer-app-1'', container_isRunning = True\<rparr>]),
       executeCommand = (\<lambda>cmd.
         if cmd = ''docker volume ls''
         then Inr (''local zkcli-block-explorer_postgres'' @ [CHR 0x0A] @ ''local other_postgres'')
         else Inr []),
       fetch_blocks = (\<lambda>t.
         if t = 0 then Inl (JsError ''FetchError'' ''fetch failed'')
         else if t = 1 then Inr [\<lparr>number = Some 3\<rparr>]
         else Inr [\<lparr>number = Some 5\<rparr>]),
       fetch_rpc = (\<lambda>t url.
         Inr \<lparr>result = JString ''0x5'', stringified = ''{"jsonrpc":"2.0","id":1,"result":"0x5"}''\<rparr>) \<rparr>\<close>

text \<open>The same host with a target network that answers without a result.\<close>

definition broken_node_env :: environment where
  \<open>broken_node_env = example_env
     \<lparr> fetch_blocks := (\<lambda>t. if t = 0 then Inl (JsError ''FetchError'' ''fetch failed'') else Inr []),
       fetch_rpc := (\<lambda>t url.
         Inr \<lparr>result = JNull, stringified = ''{"jsonrpc":"2.0","id":1,"result":null}''\<rparr>) \<rparr>\<close>

text \<open>The same host with an empty index over a chain at height 0.\<close>

definition fresh_chain_env :: environment where
  \<open>fresh_chain_env = example_env
     \<lparr> fetch_blocks := (\<lambda>t. Inr []),
       fetch_rpc := (\<lambda>t url.
         Inr \<lparr>result = JString ''0x0'', stringified = ''{"jsonrpc":"2.0","id":1,"result":"0x0"}''\<rparr>) \<rparr>\<close>

text \<open>What the readiness loop throws on the host whose target network is broken.\<close>

definition broken_node_error :: error where
  \<open>broken_node_error = new_Error
     (''Failed to get latest block number from L2 node: ''
      @ ''Error: Unexpected response from L2 node: {"jsonrpc":"2.0","id":1,"result":null}'')\<close>

text \<open>The state of a process that has not installed anything yet.\<close>

definition initial_state :: module_state where
  "initial_state =
     \<lparr> moduleConfig = \<lparr>version = None, l2Network = None\<rparr>,
       latestVersion = None,
       appConfigTemplate = \<lparr>chainId = 270, rpcUrl = ''http://localhost:3050''\<rparr>,
       directories = {},
       files = Map.empty,
       commands = [] \<rparr>"

text \<open>The example host after the user switched to another target network.\<close>

definition switched_env :: environment where
  "switched_env = example_env
     \<lparr> getNodeInfo := Inr \<lparr>chainId = 300, rpcUrl = ''http://127.0.0.1:3050''\<rparr> \<rparr>"

text \<open>A persisted record whose version is the empty string.\<close>

definition empty_version_state :: module_state where
  "empty_version_state = initial_state
     \<lparr> moduleConfig :=
         \<lparr>version = Some [], l2Network = Some \<lparr>chainId = 260, rpcUrl = ''http://127.0.0.1:8011''\<rparr>\<rparr> \<rparr>"

text \<open>What the example host's disk and configuration hold after an install from scratch.\<close>

definition installed_state :: module_state where
  "installed_state =
     \<lparr> moduleConfig =
         \<lparr>version = Some ''v0.4.0'',
          l2Network = Some \<lparr>chainId = 260, rpcUrl = ''http://127.0.0.1:8011''\<rparr>\<rparr>,
       latestVersion = Some ''v0.4.0'',
       appConfigTemplate = \<lparr>chainId = 260, rpcUrl = ''http://127.0.0.1:8011''\<rparr>,
       directories = {''/home/user/.local/share/zkcli-block-explorer''},
       files = [''/home/user/.local/share/zkcli-block-explorer/docker-compose.yml''
                  \<mapsto> CopyOf ''/usr/lib/node_modules/zkcli-block-explorer/bin/../docker-compose.yml'',
                ''/home/user/.local/share/zkcli-block-explorer/.env''
                  \<mapsto> Text (''VERSION=v0.4.0'' @ [CHR 0x0A] @ ''RPC_PORT=8011''),
                ''/home/user/.local/share/zkcli-block-explorer/app-config.js''
                  \<mapsto> RuntimeConfig \<lparr>chainId = 260, rpcUrl = ''http://127.0.0.1:8011''\<rparr>],
       commands = [''docker compose cp /home/user/.local/share/zkcli-block-explorer/app-config.js app:/usr/src/app/packages/app/dist/config.js''] \<rparr>"

text \<open>The example host with no container of the stack.\<close>

definition no_containers_env :: environment where
  "no_containers_env = example_env \<lparr> compose_status := (\<lambda>file. Inr []) \<rparr>"

text \<open>The example host with a Docker daemon that is not running.\<close>

definition no_docker_env :: environment where
  "no_docker_env = example_env
     \<lparr> compose_create := (\<lambda>path.
         Some (JsError ''Error'' ''Command exited with code 1: Cannot connect to the Docker daemon'')) \<rparr>"

text \<open>The example host with a Docker daemon that refuses to create the containers.\<close>

definition docker_denied_env :: environment where
  "docker_denied_env = example_env
     \<lparr> compose_create := (\<lambda>path.
         Some (JsError ''Error''
           ''Command exited with code 1: Error response from daemon: operation not permitted'')) \<rparr>"

text \<open>The example host on which the data directory must not be created.\<close>

definition eperm_env :: environment where
  "eperm_env = example_env
     \<lparr> mkdirSync := (\<lambda>dir.
         Some (JsError ''Error'' (''EPERM: operation not permitted, mkdir '' @ dir))) \<rparr>"

text \<open>The example host with a target network whose URL has no port.\<close>

definition no_port_env :: environment where
  "no_port_env = example_env
     \<lparr> getNodeInfo := Inr \<lparr>chainId = 300, rpcUrl = ''https://sepolia.era.zksync.dev''\<rparr> \<rparr>"

section \<open>Properties of the version comparison\<close>

lemma compare_from_first_difference:
  "compare_from v1 v2 i =
     first_difference (map (component_or_0 v1) [i..<max (length v1) (length v2)])
                      (map (component_or_0 v2) [i..<max (length v1) (length v2)])"
proof (induction v1 v2 i rule: compare_from.induct)
  case (1 v1 v2 i)
  show ?case
  proof (cases "i < max (length v1) (length v2)")
    case True
    then have u: "[i..<max (length v1) (length v2)] =
                  i # [i + 1..<max (length v1) (length v2)]"
      by (simp add: upt_conv_Cons)
    show ?thesis
      using True "1.IH" [OF True refl refl]
      by (subst compare_from.simps) (simp add: u Let_def)
  next
    case False
    then have "compare_from v1 v2 i = 0"
      by (subst compare_from.simps) simp
    moreover from False have "[i..<max (length v1) (length v2)] = []"
      by auto
    ultimately show ?thesis
      by (simp only: list.map first_difference.simps)
  qed
qed

lemma first_difference_range: "first_difference xs ys \<in> {1, - 1, 0}"
  by (induction xs ys rule: first_difference.induct) auto

text \<open>On digits, \<^verbatim>\<open>Number\<close> reads the decimal value.\<close>

lemma decimal_from_digits:
  "list_all is_digit s \<Longrightarrow>
   decimal_from acc s
     = Some (foldl (\<lambda>acc c. 10 * acc + ((of_char c :: nat) - 48)) acc s)"
  by (induction s arbitrary: acc) (simp_all add: is_digit_def digit_value_def)

lemma Number_well_formed: "well_formed_component s \<Longrightarrow> Number s = Some (decimal_value s)"
  by (simp add: well_formed_component_def Number_def decimal_value_def decimal_from_digits)

lemma parseVersion_well_formed:
  assumes "well_formed_version v"
  shows "parseVersion v = map Some (map decimal_value (split_on CHR ''.'' v))"
proof -
  have "map Number cs = map Some (map decimal_value cs)"
    if "list_all well_formed_component cs" for cs
    using that by (induction cs) (simp_all add: Number_well_formed)
  with assms show ?thesis
    by (simp add: well_formed_version_def parseVersion_def)
qed

text \<open>Reading the positions up to \<open>n\<close> pads the sequence with zeros.\<close>

lemma component_or_0_Some:
  "component_or_0 (map Some xs) i = (if i < length xs then xs ! i else 0)"
  by (simp add: component_or_0_def)

lemma read_up_to_pads:
  assumes "length xs \<le> n"
  shows "map (component_or_0 (map Some xs)) [0..<n] = pad_zeros xs n"
proof (rule nth_equalityI)
  from assms show "length (map (component_or_0 (map Some xs)) [0..<n]) = length (pad_zeros xs n)"
    by (simp add: pad_zeros_def)
next
  fix i
  assume "i < length (map (component_or_0 (map Some xs)) [0..<n])"
  then have i: "i < n" by simp
  show "map (component_or_0 (map Some xs)) [0..<n] ! i = pad_zeros xs n ! i"
  proof (cases "i < length xs")
    case True
    with i show ?thesis
      by (simp add: component_or_0_Some pad_zeros_def nth_append)
  next
    case False
    with i assms show ?thesis
      by (simp add: component_or_0_Some pad_zeros_def nth_append)
  qed
qed

lemma compare_spec_eq:
  assumes "well_formed_version a" and "well_formed_version b"
  shows "compareSemanticVersions a b = compareVersions_spec a b"
proof -
  define xs where "xs = map decimal_value (split_on CHR ''.'' a)"
  define ys where "ys = map decimal_value (split_on CHR ''.'' b)"
  define n where "n = max (length xs) (length ys)"
  have pa: "parseVersion a = map Some xs" and pb: "parseVersion b = map Some ys"
    using assms by (simp_all add: parseVersion_well_formed xs_def ys_def)
  have "compareSemanticVersions a b
        = first_difference (map (component_or_0 (map Some xs)) [0..<n])
                           (map (component_or_0 (map Some ys)) [0..<n])"
    by (simp add: compareSemanticVersions_def Let_def pa pb compare_from_first_difference n_def)
  also have "\<dots> = first_difference (pad_zeros xs n) (pad_zeros ys n)"
    by (simp add: read_up_to_pads n_def)
  also have "\<dots> = compareVersions_spec a b"
    by (simp add: compareVersions_spec_def Let_def xs_def ys_def n_def)
  finally show ?thesis .
qed

text \<open>The six versions of the examples, read by the code and by the specification.\<close>

lemma parse_1_0: "parseVersion ''1.0'' = [Some 1, Some 0]"
  by (simp add: parseVersion_def Number_def digit_value_def)

lemma parse_1_0_0: "parseVersion ''1.0.0'' = [Some 1, Some 0, Some 0]"
  by (simp add: parseVersion_def Number_def digit_value_def)

lemma parse_1_2_3: "parseVersion ''1.2.3'' = [Some 1, Some 2, Some 3]"
  by (simp add: parseVersion_def Number_def digit_value_def)

lemma parse_1_2_10: "parseVersion ''1.2.10'' = [Some 1, Some 2, Some 10]"
  by (simp add: parseVersion_def Number_def digit_value_def)

lemma parse_2_0_0: "parseVersion ''2.0.0'' = [Some 2, Some 0, Some 0]"
  by (simp add: parseVersion_def Number_def digit_value_def)

lemma parse_1_9_9: "parseVersion ''1.9.9'' = [Some 1, Some 9, Some 9]"
  by (simp add: parseVersion_def Number_def digit_value_def)

lemma upt_3: "[0..<3] = [0, 1, 2]"
  by (simp add: upt_rec)

lemma compare_1_0: "compareSemanticVersions ''1.0'' ''1.0.0'' = 0"
  by (simp add: compareSemanticVersions_def Let_def compare_from_first_difference
      parse_1_0 parse_1_0_0 upt_3 component_or_0_def)

lemma compare_1_2_3: "compareSemanticVersions ''1.2.3'' ''1.2.10'' = - 1"
  by (simp add: compareSemanticVersions_def Let_def compare_from_first_difference
      parse_1_2_3 parse_1_2_10 upt_3 component_or_0_def)

lemma compare_2_0_0: "compareSemanticVersions ''2.0.0'' ''1.9.9'' = 1"
  by (simp add: compareSemanticVersions_def Let_def compare_from_first_difference
      parse_2_0_0 parse_1_9_9 upt_3 component_or_0_def)

lemma well_formed_1_2_3: "well_formed_version ''1.2.3''"
  by (simp add: well_formed_version_def well_formed_component_def is_digit_def decimal_value_def)

lemma well_formed_1_2_10: "well_formed_version ''1.2.10''"
  by (simp add: well_formed_version_def well_formed_component_def is_digit_def decimal_value_def)

lemma spec_1_2_3: "compareVersions_spec ''1.2.3'' ''1.2.10'' = - 1"
  by (simp add: compareVersions_spec_def Let_def decimal_value_def pad_zeros_def)

text \<open>
  C5. On versions whose components are decimal digits (with values below
  \<open>2^53\<close>, where \<^verbatim>\<open>Number\<close> is exact), compareSemanticVersions splits both
  strings on the dot, reads the pieces as numbers and compares them position by
  position up to the length of the longer sequence, a missing trailing
  component counting as 0; the result is 1, -1 or 0. In particular "1.0"
  against "1.0.0" gives 0, "1.2.3" against "1.2.10" gives -1, and "2.0.0"
  against "1.9.9" gives 1.
\<close>

theorem compareSemanticVersions_componentwise:
  "(well_formed_version a \<and> well_formed_version b
      \<longrightarrow> compareSemanticVersions a b = compareVersions_spec a b
          \<and> compareSemanticVersions a b \<in> {1, - 1, 0})
   \<and> compareSemanticVersions ''1.0'' ''1.0.0'' = 0
   \<and> compareSemanticVersions ''1.2.3'' ''1.2.10'' = - 1
   \<and> compareSemanticVersions ''2.0.0'' ''1.9.9'' = 1"
proof (intro conjI impI)
  assume w: "well_formed_version a \<and> well_formed_version b"
  then show e: "compareSemanticVersions a b = compareVersions_spec a b"
    by (simp add: compare_spec_eq)
  show "compareSemanticVersions a b \<in> {1, - 1, 0}"
    unfolding e compareVersions_spec_def Let_def by (rule first_difference_range)
next
  show "compareSemanticVersions ''1.0'' ''1.0.0'' = 0" by (rule compare_1_0)
next
  show "compareSemanticVersions ''1.2.3'' ''1.2.10'' = - 1" by (rule compare_1_2_3)
next
  show "compareSemanticVersions ''2.0.0'' ''1.9.9'' = 1" by (rule compare_2_0_0)
qed

theorem compareSemanticVersions_componentwise_witness:
  "well_formed_version ''1.2.3'' \<and> well_formed_version ''1.2.10''
   \<and> compareSemanticVersions ''1.2.3'' ''1.2.10'' = compareVersions_spec ''1.2.3'' ''1.2.10''
   \<and> compareVersions_spec ''1.2.3'' ''1.2.10'' = - 1"
  using compareSemanticVersions_componentwise [of "''1.2.3''" "''1.2.10''"]
    well_formed_1_2_3 well_formed_1_2_10 spec_1_2_3
  by blast

section \<open>Properties of the readiness loop\<close>

text \<open>One iteration, case by case.\<close>

lemma loop_api_failure:
  "getApiLatestBlockNumber env t = Inl e \<Longrightarrow>
   indexing_loop env t evs = indexing_loop env (t + 1) (evs @ [Sleep 1000])"
  by (subst indexing_loop.simps) simp

lemma loop_node_failure:
  "getApiLatestBlockNumber env t = Inr a \<Longrightarrow> getNodeLatestBlockNumber env t = Inl e \<Longrightarrow>
   indexing_loop env t evs =
     Some (Inl e, evs @ [SpinnerFail ''Failed to get node latest block number''])"
  by (subst indexing_loop.simps) simp

lemma loop_heights_equal:
  "getApiLatestBlockNumber env t = Inr a \<Longrightarrow> getNodeLatestBlockNumber env t = Inr a \<Longrightarrow>
   indexing_loop env t evs =
     Some (Inr (), evs @ [SpinnerSucceed ''Block Explorer initialized''])"
  by (subst indexing_loop.simps) simp

lemma loop_heights_differ:
  "getApiLatestBlockNumber env t = Inr a \<Longrightarrow> getNodeLatestBlockNumber env t = Inr n \<Longrightarrow>
   a \<noteq> n \<Longrightarrow>
   indexing_loop env t evs = indexing_loop env (t + 1) (evs @ [Progress a n, Sleep 1000])"
  by (subst indexing_loop.simps) simp

text \<open>Iterations that repeat are skipped; a run that returns ends in some iteration.\<close>

lemma loop_repeats:
  assumes "repeats env t"
  shows "\<exists>evs'. indexing_loop env t evs = indexing_loop env (t + 1) evs'"
proof (cases "getApiLatestBlockNumber env t")
  case (Inl e)
  from loop_api_failure [OF Inl, of evs] show ?thesis by (rule exI)
next
  case (Inr a)
  show ?thesis
  proof (cases "getNodeLatestBlockNumber env t")
    case (Inl e)
    with Inr assms show ?thesis by (simp add: repeats_def)
  next
    case nr: (Inr n)
    with Inr assms have "a \<noteq> n" by (simp add: repeats_def)
    from loop_heights_differ [OF Inr nr this, of evs] show ?thesis by (rule exI)
  qed
qed

lemma loop_skip:
  "list_all (repeats env) [t..<t + d] \<Longrightarrow>
   \<exists>evs'. indexing_loop env t evs = indexing_loop env (t + d) evs'"
proof (induction d arbitrary: evs)
  case 0
  show ?case by auto
next
  case (Suc d)
  from Suc.prems have p: "list_all (repeats env) [t..<t + d]" and q: "repeats env (t + d)"
    by simp_all
  from Suc.IH [OF p, of evs] obtain evs1 where
    a: "indexing_loop env t evs = indexing_loop env (t + d) evs1" ..
  from loop_repeats [OF q, of evs1] obtain evs2 where
    b: "indexing_loop env (t + d) evs1 = indexing_loop env (t + d + 1) evs2" ..
  from a b have "indexing_loop env t evs = indexing_loop env (t + Suc d) evs2" by simp
  then show ?case ..
qed

lemma returns_at_later:
  assumes "repeats env t" and "returns_at env (t + 1) k r"
  shows "returns_at env t k r"
proof -
  from assms(2) have a: "t + 1 \<le> k" and b: "list_all (repeats env) [t + 1..<k]"
    and c: "case r of Inl e \<Rightarrow> node_failure env k e | Inr u \<Rightarrow> heights_equal env k"
    unfolding returns_at_def by simp_all
  from a have d: "t \<le> k" and u: "[t..<k] = t # [t + 1..<k]"
    by (simp_all add: upt_conv_Cons)
  from assms(1) b have "list_all (repeats env) [t..<k]"
    unfolding u by simp
  with d c show ?thesis
    unfolding returns_at_def by (intro conjI)
qed

lemma returns_at_now:
  assumes "case r of Inl e \<Rightarrow> node_failure env t e | Inr u \<Rightarrow> heights_equal env t"
  shows "returns_at env t t r"
  unfolding returns_at_def using assms by simp

lemma loop_returns_at:
  assumes "indexing_loop env t evs = Some y"
  shows "\<exists>k. returns_at env t k (fst y)"
proof (rule indexing_loop.raw_induct
    [where P = "\<lambda>env t evs y. \<exists>k. returns_at env t k (fst y)", OF _ assms])
  fix loop :: "environment \<Rightarrow> nat \<Rightarrow> event list \<Rightarrow> ((error + unit) \<times> event list) option"
  fix env t evs y
  assume IH: "\<And>env t evs y. loop env t evs = Some y \<Longrightarrow> \<exists>k. returns_at env t k (fst y)"
  assume eq: "(case getApiLatestBlockNumber env t of
      Inl e \<Rightarrow> loop env (t + 1) (evs @ [Sleep 1000])
      | Inr apiLatestBlockNumber \<Rightarrow>
          (case getNodeLatestBlockNumber env t of
             Inl e \<Rightarrow>
               Some (Inl e, evs @ [SpinnerFail ''Failed to get node latest block number''])
           | Inr nodeLatestBlockNumber \<Rightarrow>
               if apiLatestBlockNumber = nodeLatestBlockNumber
               then Some (Inr (), evs @ [SpinnerSucceed ''Block Explorer initialized''])
               else loop env (t + 1)
                      (evs @ [Progress apiLatestBlockNumber nodeLatestBlockNumber, Sleep 1000]))) =
     Some y"
  show "\<exists>k. returns_at env t k (fst y)"
  proof (cases "getApiLatestBlockNumber env t")
    case (Inl e)
    with eq have "loop env (t + 1) (evs @ [Sleep 1000]) = Some y" by simp
    from IH [OF this] obtain k where k: "returns_at env (t + 1) k (fst y)" ..
    have "repeats env t" using Inl by (simp add: repeats_def)
    from returns_at_later [OF this k] show ?thesis ..
  next
    case (Inr a)
    show ?thesis
    proof (cases "getNodeLatestBlockNumber env t")
      case (Inl e)
      with Inr eq have "fst y = Inl e" by auto
      moreover have "node_failure env t e" using Inl Inr by (simp add: node_failure_def)
      ultimately have "returns_at env t t (fst y)" by (simp add: returns_at_now)
      then show ?thesis ..
    next
      case nr: (Inr n)
      show ?thesis
      proof (cases "a = n")
        case True
        with Inr nr eq have "fst y = Inr ()" by auto
        moreover have "heights_equal env t" using Inr nr True by (simp add: heights_equal_def)
        ultimately have "returns_at env t t (fst y)" by (simp add: returns_at_now)
        then show ?thesis ..
      next
        case False
        with Inr nr eq have "loop env (t + 1) (evs @ [Progress a n, Sleep 1000]) = Some y"
          by simp
        from IH [OF this] obtain k where k: "returns_at env (t + 1) k (fst y)" ..
        have "repeats env t" using Inr nr False by (simp add: repeats_def)
        from returns_at_later [OF this k] show ?thesis ..
      qed
    qed
  qed
qed

lemma returns_at_loop:
  assumes "returns_at env t k r"
  shows "\<exists>evs'. indexing_loop env t evs = Some (r, evs')"
proof -
  from assms have le: "t \<le> k" and rep: "list_all (repeats env) [t..<k]"
    and fin: "case r of Inl e \<Rightarrow> node_failure env k e | Inr u \<Rightarrow> heights_equal env k"
    unfolding returns_at_def by simp_all
  from le have k: "k = t + (k - t)" by simp
  from rep k have "list_all (repeats env) [t..<t + (k - t)]" by simp
  from loop_skip [OF this, of evs] k obtain evs1 where
    skip: "indexing_loop env t evs = indexing_loop env k evs1" by auto
  show ?thesis
  proof (cases r)
    case (Inl e)
    with fin obtain a where "getApiLatestBlockNumber env k = Inr a"
      "getNodeLatestBlockNumber env k = Inl e"
      by (auto simp: node_failure_def split: sum.splits)
    from loop_node_failure [OF this, of evs1] skip Inl show ?thesis by simp
  next
    case (Inr u)
    with fin obtain a where "getApiLatestBlockNumber env k = Inr a"
      "getNodeLatestBlockNumber env k = Inr a"
      by (auto simp: heights_equal_def split: sum.splits)
    from loop_heights_equal [OF this, of evs1] skip Inr show ?thesis by simp
  qed
qed

lemma node_query_fails_iff:
  "node_query_fails env t \<longleftrightarrow> (\<exists>e. getNodeLatestBlockNumber env t = Inl e)"
  by (auto simp: node_query_fails_def getNodeLatestBlockNumber_def split: sum.splits option.splits)

text \<open>The example host, iteration by iteration.\<close>

lemma example_api_0: "getApiLatestBlockNumber example_env 0 = Inl (JsError ''FetchError'' ''fetch failed'')"
  by (simp add: getApiLatestBlockNumber_def example_env_def)

lemma example_api_1: "getApiLatestBlockNumber example_env 1 = Inr 3"
  by (simp add: getApiLatestBlockNumber_def example_env_def)

lemma example_api_2: "getApiLatestBlockNumber example_env 2 = Inr 5"
  by (simp add: getApiLatestBlockNumber_def example_env_def)

lemma parseInt16_0x5: "parseInt16 ''0x5'' = Some 5"
  by (simp add: parseInt16_def is_white_space_def strip_0x_def hex_value_def hex_number_def)

lemma example_node: "getNodeLatestBlockNumber example_env t = Inr 5"
  by (simp add: getNodeLatestBlockNumber_def getL2Network_def example_env_def parseInt16_0x5)

lemma example_repeats_0: "repeats example_env 0"
  by (simp add: repeats_def example_api_0)

lemma example_repeats_1: "repeats example_env 1"
  using example_api_1 example_node [of 1] by (simp add: repeats_def)

lemma example_heights_equal_2: "heights_equal example_env 2"
  by (simp add: heights_equal_def example_api_2 example_node)

lemma upt_0_2: "[0..<2] = [0, 1]"
  by (simp add: upt_rec)

text \<open>
  C6. The readiness loop returns successfully exactly when it reaches an
  iteration in which the height of the indexing service equals the height of
  the target network (every earlier iteration repeats). In an iteration where
  the two heights differ it does not return: it shows the progress and goes on
  with the next iteration after sleeping 1000 ms. In an iteration where they
  are equal it reports success and returns.
\<close>

theorem waitForFullIndexing_success_iff:
  "((\<exists>evs'. waitForFullIndexing env = Some (Inr (), evs'))
      \<longleftrightarrow> (\<exists>k. list_all (repeats env) [0..<k] \<and> heights_equal env k))
   \<and> (getApiLatestBlockNumber env t = Inr a \<and> getNodeLatestBlockNumber env t = Inr n \<and> a \<noteq> n
        \<longrightarrow> indexing_loop env t evs
            = indexing_loop env (t + 1) (evs @ [Progress a n, Sleep 1000]))
   \<and> (getApiLatestBlockNumber env t = Inr a \<and> getNodeLatestBlockNumber env t = Inr a
        \<longrightarrow> indexing_loop env t evs
            = Some (Inr (), evs @ [SpinnerSucceed ''Block Explorer initialized'']))"
proof (intro conjI impI iffI)
  assume "\<exists>evs'. waitForFullIndexing env = Some (Inr (), evs')"
  then obtain evs' where
    "indexing_loop env 0 [SpinnerStart ''Initializing Block Explorer API...''] = Some (Inr (), evs')"
    unfolding waitForFullIndexing_def ..
  from loop_returns_at [OF this] obtain k where "returns_at env 0 k (Inr ())"
    by auto
  then have "list_all (repeats env) [0..<k] \<and> heights_equal env k"
    by (simp add: returns_at_def)
  then show "\<exists>k. list_all (repeats env) [0..<k] \<and> heights_equal env k" ..
next
  assume "\<exists>k. list_all (repeats env) [0..<k] \<and> heights_equal env k"
  then obtain k where "list_all (repeats env) [0..<k] \<and> heights_equal env k" ..
  then have "returns_at env 0 k (Inr ())"
    by (simp add: returns_at_def)
  from returns_at_loop [OF this] show "\<exists>evs'. waitForFullIndexing env = Some (Inr (), evs')"
    unfolding waitForFullIndexing_def .
next
  assume "getApiLatestBlockNumber env t = Inr a \<and> getNodeLatestBlockNumber env t = Inr n \<and> a \<noteq> n"
  then show "indexing_loop env t evs
            = indexing_loop env (t + 1) (evs @ [Progress a n, Sleep 1000])"
    by (simp add: loop_heights_differ)
next
  assume "getApiLatestBlockNumber env t = Inr a \<and> getNodeLatestBlockNumber env t = Inr a"
  then show "indexing_loop env t evs
            = Some (Inr (), evs @ [SpinnerSucceed ''Block Explorer initialized''])"
    by (simp add: loop_heights_equal)
qed

theorem waitForFullIndexing_success_iff_witness:
  "list_all (repeats example_env) [0..<2] \<and> heights_equal example_env 2
   \<and> (\<exists>evs'. waitForFullIndexing example_env = Some (Inr (), evs'))
   \<and> getApiLatestBlockNumber example_env 1 = Inr 3
   \<and> getNodeLatestBlockNumber example_env 1 = Inr 5
   \<and> indexing_loop example_env 1 [] = indexing_loop example_env (1 + 1) ([] @ [Progress 3 5, Sleep 1000])
   \<and> getApiLatestBlockNumber example_env 2 = Inr 5
   \<and> getNodeLatestBlockNumber example_env 2 = Inr 5
   \<and> indexing_loop example_env 2 [] = Some (Inr (), [] @ [SpinnerSucceed ''Block Explorer initialized''])"
proof -
  have r: "list_all (repeats example_env) [0..<2] \<and> heights_equal example_env 2"
    using example_repeats_0 example_repeats_1 example_heights_equal_2
    by (simp add: upt_0_2)
  then have ex: "\<exists>k. list_all (repeats example_env) [0..<k] \<and> heights_equal example_env k" ..
  have a: "getApiLatestBlockNumber example_env 1 = Inr 3
      \<and> getNodeLatestBlockNumber example_env 1 = Inr 5 \<and> (3::int) \<noteq> 5"
    using example_api_1 example_node [of 1] by simp
  have b: "getApiLatestBlockNumber example_env 2 = Inr 5
      \<and> getNodeLatestBlockNumber example_env 2 = Inr 5"
    using example_api_2 example_node [of 2] by simp
  from waitForFullIndexing_success_iff [of example_env 1 3 5 "[]"] ex a
  have c: "(\<exists>evs'. waitForFullIndexing example_env = Some (Inr (), evs'))"
    and d: "indexing_loop example_env 1 []
      = indexing_loop example_env (1 + 1) ([] @ [Progress 3 5, Sleep 1000])"
    by blast+
  from waitForFullIndexing_success_iff [of example_env 2 5 5 "[]"] b
  have e: "indexing_loop example_env 2 []
      = Some (Inr (), [] @ [SpinnerSucceed ''Block Explorer initialized''])"
    by blast
  from r a b c d e show ?thesis by blast
qed

text \<open>The readiness loop on the host whose target network answers without a result.\<close>

lemma broken_api_0:
  "getApiLatestBlockNumber broken_node_env 0 = Inl (JsError ''FetchError'' ''fetch failed'')"
  by (simp add: getApiLatestBlockNumber_def broken_node_env_def)

lemma broken_api_1: "getApiLatestBlockNumber broken_node_env 1 = Inr 0"
  by (simp add: getApiLatestBlockNumber_def broken_node_env_def)

lemma parseInt16_null: "parseInt16 ''null'' = None"
  by (simp add: parseInt16_def is_white_space_def strip_0x_def hex_value_def)

lemma broken_node_fails: "node_query_fails broken_node_env t"
  by (simp add: node_query_fails_def getL2Network_def broken_node_env_def example_env_def
      parseInt16_null)

lemma broken_node: "getNodeLatestBlockNumber broken_node_env t = Inl broken_node_error"
  by (simp add: getNodeLatestBlockNumber_def getL2Network_def broken_node_env_def example_env_def
      parseInt16_null broken_node_error_def new_Error_def)

lemma broken_wait:
  "waitForFullIndexing broken_node_env =
     Some (Inl broken_node_error,
           [SpinnerStart ''Initializing Block Explorer API...'', Sleep 1000,
            SpinnerFail ''Failed to get node latest block number''])"
  unfolding waitForFullIndexing_def
  using loop_api_failure [OF broken_api_0,
      of "[SpinnerStart ''Initializing Block Explorer API...'']"]
    loop_node_failure [OF broken_api_1 broken_node [of 1],
      of "[SpinnerStart ''Initializing Block Explorer API...''] @ [Sleep 1000]"]
  by simp

text \<open>
  C2. In every iteration of the readiness loop a failure of the indexing
  service's height query is swallowed: the loop sleeps 1000 ms and goes on with
  the next iteration. Such a failure is never what the loop throws: an error
  that waitForFullIndexing throws is the error of the target network's height
  query, in an iteration where the indexing service answered. And whenever the
  target network's query fails (the network is not resolved, the request fails,
  or the result does not parse as a number) after the indexing service
  answered, the loop throws at once, in that iteration.
\<close>

theorem waitForFullIndexing_retry_policy:
  "(getApiLatestBlockNumber env t = Inl e
      \<longrightarrow> indexing_loop env t evs = indexing_loop env (t + 1) (evs @ [Sleep 1000]))
   \<and> (waitForFullIndexing env = Some (Inl err, evs')
      \<longrightarrow> (\<exists>k a. getApiLatestBlockNumber env k = Inr a
                \<and> getNodeLatestBlockNumber env k = Inl err))
   \<and> (getApiLatestBlockNumber env t = Inr a \<and> node_query_fails env t
      \<longrightarrow> (\<exists>err. getNodeLatestBlockNumber env t = Inl err
               \<and> indexing_loop env t evs
                 = Some (Inl err, evs @ [SpinnerFail ''Failed to get node latest block number''])))"
proof (intro conjI impI)
  assume "getApiLatestBlockNumber env t = Inl e"
  then show "indexing_loop env t evs = indexing_loop env (t + 1) (evs @ [Sleep 1000])"
    by (rule loop_api_failure)
next
  assume "waitForFullIndexing env = Some (Inl err, evs')"
  then have "indexing_loop env 0 [SpinnerStart ''Initializing Block Explorer API...'']
             = Some (Inl err, evs')"
    by (simp add: waitForFullIndexing_def)
  from loop_returns_at [OF this] obtain k where "returns_at env 0 k (Inl err)"
    by auto
  then have "node_failure env k err"
    by (simp add: returns_at_def)
  then have "\<exists>a. getApiLatestBlockNumber env k = Inr a
                \<and> getNodeLatestBlockNumber env k = Inl err"
    by (auto simp: node_failure_def split: sum.splits)
  then show "\<exists>k a. getApiLatestBlockNumber env k = Inr a
                \<and> getNodeLatestBlockNumber env k = Inl err" ..
next
  assume h: "getApiLatestBlockNumber env t = Inr a \<and> node_query_fails env t"
  then obtain err where err: "getNodeLatestBlockNumber env t = Inl err"
    by (auto simp: node_query_fails_iff)
  from h have api: "getApiLatestBlockNumber env t = Inr a" ..
  from loop_node_failure [OF api err, of evs] err
  show "\<exists>err. getNodeLatestBlockNumber env t = Inl err
               \<and> indexing_loop env t evs
                 = Some (Inl err, evs @ [SpinnerFail ''Failed to get node latest block number''])"
    by blast
qed

theorem waitForFullIndexing_retry_policy_witness:
  "getApiLatestBlockNumber broken_node_env 0 = Inl (JsError ''FetchError'' ''fetch failed'')
   \<and> indexing_loop broken_node_env 0 [] = indexing_loop broken_node_env (0 + 1) ([] @ [Sleep 1000])
   \<and> waitForFullIndexing broken_node_env
       = Some (Inl broken_node_error,
           [SpinnerStart ''Initializing Block Explorer API...'', Sleep 1000,
            SpinnerFail ''Failed to get node latest block number''])
   \<and> (\<exists>k a. getApiLatestBlockNumber broken_node_env k = Inr a
                \<and> getNodeLatestBlockNumber broken_node_env k = Inl broken_node_error)
   \<and> getApiLatestBlockNumber broken_node_env 1 = Inr 0
   \<and> node_query_fails broken_node_env 1
   \<and> (\<exists>err. getNodeLatestBlockNumber broken_node_env 1 = Inl err
               \<and> indexing_loop broken_node_env 1 []
                 = Some (Inl err, [] @ [SpinnerFail ''Failed to get node latest block number'']))"
proof -
  note w = waitForFullIndexing_retry_policy
  have a: "getApiLatestBlockNumber broken_node_env 0 = Inl (JsError ''FetchError'' ''fetch failed'')"
    by (rule broken_api_0)
  have b: "getApiLatestBlockNumber broken_node_env 1 = Inr 0 \<and> node_query_fails broken_node_env 1"
    using broken_api_1 broken_node_fails [of 1] by simp
  from w [of broken_node_env 0 "JsError ''FetchError'' ''fetch failed''" "[]"] a
  have c: "indexing_loop broken_node_env 0 []
           = indexing_loop broken_node_env (0 + 1) ([] @ [Sleep 1000])"
    by blast
  from w [of broken_node_env _ _ _ broken_node_error] broken_wait
  have d: "\<exists>k a. getApiLatestBlockNumber broken_node_env k = Inr a
                \<and> getNodeLatestBlockNumber broken_node_env k = Inl broken_node_error"
    by blast
  from w [of broken_node_env 1 _ "[]" _ _ 0] b
  have e: "\<exists>err. getNodeLatestBlockNumber broken_node_env 1 = Inl err
               \<and> indexing_loop broken_node_env 1 []
                 = Some (Inl err, [] @ [SpinnerFail ''Failed to get node latest block number''])"
    by blast
  from a b c d e broken_wait show ?thesis by blast
qed

text \<open>The readiness loop on the host with an empty index.\<close>

lemma parseInt16_0x0: "parseInt16 ''0x0'' = Some 0"
  by (simp add: parseInt16_def is_white_space_def strip_0x_def hex_value_def hex_number_def)

lemma fresh_blocks: "fetch_blocks fresh_chain_env t = Inr []"
  by (simp add: fresh_chain_env_def)

lemma fresh_node: "getNodeLatestBlockNumber fresh_chain_env t = Inr 0"
  by (simp add: getNodeLatestBlockNumber_def getL2Network_def fresh_chain_env_def example_env_def
      parseInt16_0x0)

text \<open>
  C9. When the indexing service answers with an empty list of blocks,
  getApiLatestBlockNumber returns 0 and does not fail; so, when the target
  network's height is 0 as well, the readiness loop returns successfully in
  that same iteration.
\<close>

theorem empty_index_is_height_0:
  "fetch_blocks env t = Inr [] \<longrightarrow>
     getApiLatestBlockNumber env t = Inr 0
     \<and> (getNodeLatestBlockNumber env t = Inr 0 \<longrightarrow>
          indexing_loop env t evs
          = Some (Inr (), evs @ [SpinnerSucceed ''Block Explorer initialized'']))"
proof (intro impI conjI)
  assume e: "fetch_blocks env t = Inr []"
  then show a: "getApiLatestBlockNumber env t = Inr 0"
    by (simp add: getApiLatestBlockNumber_def)
  assume "getNodeLatestBlockNumber env t = Inr 0"
  from loop_heights_equal [OF a this]
  show "indexing_loop env t evs
          = Some (Inr (), evs @ [SpinnerSucceed ''Block Explorer initialized''])" .
qed

theorem empty_index_is_height_0_witness:
  "fetch_blocks fresh_chain_env 0 = Inr []
   \<and> getApiLatestBlockNumber fresh_chain_env 0 = Inr 0
   \<and> getNodeLatestBlockNumber fresh_chain_env 0 = Inr 0
   \<and> waitForFullIndexing fresh_chain_env
       = Some (Inr (), [SpinnerStart ''Initializing Block Explorer API...'',
                        SpinnerSucceed ''Block Explorer initialized''])"
  using empty_index_is_height_0
      [of fresh_chain_env 0 "[SpinnerStart ''Initializing Block Explorer API...'']"]
    fresh_blocks [of 0] fresh_node [of 0]
  by (simp add: waitForFullIndexing_def)

section \<open>Properties of isInstalled and isRunning\<close>

text \<open>An install from scratch on the example host.\<close>

lemma rpcPort_example: "rpcPort_of ''http://127.0.0.1:8011'' = ''8011''"
  by (simp add: rpcPort_of_def at_last_def)

lemma install_try_example: "install_try example_env initial_state = (Inr (), installed_state)"
  by (simp add: install_try_def and_then_def getL2Network_def getLatestVersion_def falsy_def
      fs_mkdirSync_def fs_copyFileSync_def fs_writeFileSync_def docker_compose_create_def
      applyAppConfig_def exec_def setModuleConfig_def envFileContent_def rpcPort_example
      getLocalFilePath_def getInstalledModuleFilePath_def installedComposeFile_def path_join_def
      REPO_URL_def APP_RUNTIME_CONFIG_PATH_def example_env_def initial_state_def Let_def
      installed_state_def)

lemma install_example: "install example_env initial_state = (Inr (), installed_state)"
  by (simp add: install_def install_try_example)

text \<open>isInstalled, branch by branch.\<close>

lemma isInstalled_incomplete:
  "version (moduleConfig s) = None \<or> version (moduleConfig s) = Some []
     \<or> l2Network (moduleConfig s) = None \<Longrightarrow>
   isInstalled env s = Inr False"
  by (auto simp: isInstalled_def falsy_def)

lemma isInstalled_complete:
  assumes "version (moduleConfig s) = Some v" and "v \<noteq> []"
    and "l2Network (moduleConfig s) = Some stored"
  shows "isInstalled env s =
     (case getL2Network env of
        Inl e \<Rightarrow> Inl e
      | Inr net \<Rightarrow>
          if chainId net \<noteq> chainId stored \<or> rpcUrl net \<noteq> rpcUrl stored then Inr False
          else (case compose_status env (installedComposeFile env) of
                  Inl e \<Rightarrow> Inl e
                | Inr cs \<Rightarrow> Inr (cs \<noteq> [])))"
  using assms by (simp add: isInstalled_def falsy_def split: sum.splits)

lemma isInstalled_True_iff:
  "isInstalled env s = Inr True \<longleftrightarrow>
     (\<exists>v stored net cs.
        version (moduleConfig s) = Some v \<and> v \<noteq> []
        \<and> l2Network (moduleConfig s) = Some stored
        \<and> getL2Network env = Inr net
        \<and> chainId net = chainId stored \<and> rpcUrl net = rpcUrl stored
        \<and> compose_status env (installedComposeFile env) = Inr cs \<and> cs \<noteq> [])"
proof (cases "version (moduleConfig s) = None \<or> version (moduleConfig s) = Some []
     \<or> l2Network (moduleConfig s) = None")
  case True
  from isInstalled_incomplete [OF True, of env] True show ?thesis by auto
next
  case False
  then obtain v stored where c: "version (moduleConfig s) = Some v" "v \<noteq> []"
    "l2Network (moduleConfig s) = Some stored"
    by auto
  show ?thesis
    unfolding isInstalled_complete [OF c] using c
    by (auto split: sum.splits)
qed

lemma isInstalled_mismatch:
  assumes "l2Network (moduleConfig s) = Some stored" and "getL2Network env = Inr net"
    and "chainId net \<noteq> chainId stored \<or> rpcUrl net \<noteq> rpcUrl stored"
  shows "isInstalled env s = Inr False"
  using assms by (auto simp: isInstalled_def)

lemma isInstalled_no_container:
  assumes "l2Network (moduleConfig s) = Some stored" and "getL2Network env = Inr net"
    and "compose_status env (installedComposeFile env) = Inr []"
  shows "isInstalled env s = Inr False"
  using assms by (auto simp: isInstalled_def)

text \<open>
  C3 (as the code has it). isInstalled returns false whenever the persisted
  record has no version, an empty version string, or no stored network. With
  both present it returns false when the resolved network's chainId or rpcUrl
  differs from the stored one, and when the orchestrator reports no container.
  It returns true exactly when the version is present and not empty, the
  stored network is present, the resolved network has the same chainId and the
  same rpcUrl, and the orchestrator reports at least one container.
\<close>

theorem isInstalled_characterisation:
  "(version (moduleConfig s) = None \<or> version (moduleConfig s) = Some []
      \<or> l2Network (moduleConfig s) = None
    \<longrightarrow> isInstalled env s = Inr False)
   \<and> (l2Network (moduleConfig s) = Some stored \<and> getL2Network env = Inr net
      \<and> (chainId net \<noteq> chainId stored \<or> rpcUrl net \<noteq> rpcUrl stored)
    \<longrightarrow> isInstalled env s = Inr False)
   \<and> (l2Network (moduleConfig s) = Some stored \<and> getL2Network env = Inr net
      \<and> compose_status env (installedComposeFile env) = Inr []
    \<longrightarrow> isInstalled env s = Inr False)
   \<and> (isInstalled env s = Inr True \<longleftrightarrow>
       (\<exists>v stored net cs.
          version (moduleConfig s) = Some v \<and> v \<noteq> []
          \<and> l2Network (moduleConfig s) = Some stored
          \<and> getL2Network env = Inr net
          \<and> chainId net = chainId stored \<and> rpcUrl net = rpcUrl stored
          \<and> compose_status env (installedComposeFile env) = Inr cs \<and> cs \<noteq> []))"
proof (intro conjI impI)
  assume "version (moduleConfig s) = None \<or> version (moduleConfig s) = Some []
      \<or> l2Network (moduleConfig s) = None"
  then show "isInstalled env s = Inr False" by (rule isInstalled_incomplete)
next
  assume "l2Network (moduleConfig s) = Some stored \<and> getL2Network env = Inr net
      \<and> (chainId net \<noteq> chainId stored \<or> rpcUrl net \<noteq> rpcUrl stored)"
  then show "isInstalled env s = Inr False" by (auto intro: isInstalled_mismatch)
next
  assume "l2Network (moduleConfig s) = Some stored \<and> getL2Network env = Inr net
      \<and> compose_status env (installedComposeFile env) = Inr []"
  then show "isInstalled env s = Inr False" by (auto intro: isInstalled_no_container)
next
  show "isInstalled env s = Inr True \<longleftrightarrow>
       (\<exists>v stored net cs.
          version (moduleConfig s) = Some v \<and> v \<noteq> []
          \<and> l2Network (moduleConfig s) = Some stored
          \<and> getL2Network env = Inr net
          \<and> chainId net = chainId stored \<and> rpcUrl net = rpcUrl stored
          \<and> compose_status env (installedComposeFile env) = Inr cs \<and> cs \<noteq> [])"
    by (rule isInstalled_True_iff)
qed

text \<open>The example hosts and states, field by field.\<close>

lemma example_network:
  "getL2Network example_env = Inr \<lparr>chainId = 260, rpcUrl = ''http://127.0.0.1:8011''\<rparr>"
  by (simp add: getL2Network_def example_env_def)

lemma example_status:
  "compose_status example_env (installedComposeFile example_env) =
     Inr [\<lparr>container_name = ''zkcli-block-explorer-app-1'', container_isRunning = True\<rparr>]"
  by (simp add: example_env_def)

lemma switched_network:
  "getL2Network switched_env = Inr \<lparr>chainId = 300, rpcUrl = ''http://127.0.0.1:3050''\<rparr>"
  by (simp add: getL2Network_def switched_env_def example_env_def)

lemma switched_status:
  "compose_status switched_env (installedComposeFile switched_env) =
     Inr [\<lparr>container_name = ''zkcli-block-explorer-app-1'', container_isRunning = True\<rparr>]"
  by (simp add: switched_env_def example_env_def)

lemma installed_config:
  "moduleConfig installed_state =
     \<lparr>version = Some ''v0.4.0'',
      l2Network = Some \<lparr>chainId = 260, rpcUrl = ''http://127.0.0.1:8011''\<rparr>\<rparr>"
  by (simp add: installed_state_def)

lemma initial_config: "moduleConfig initial_state = \<lparr>version = None, l2Network = None\<rparr>"
  by (simp add: initial_state_def)

lemma empty_version_config:
  "moduleConfig empty_version_state =
     \<lparr>version = Some [], l2Network = Some \<lparr>chainId = 260, rpcUrl = ''http://127.0.0.1:8011''\<rparr>\<rparr>"
  by (simp add: empty_version_state_def)

theorem isInstalled_characterisation_witness:
  "version (moduleConfig initial_state) = None
   \<and> isInstalled example_env initial_state = Inr False
   \<and> l2Network (moduleConfig installed_state)
       = Some \<lparr>chainId = 260, rpcUrl = ''http://127.0.0.1:8011''\<rparr>
   \<and> getL2Network switched_env = Inr \<lparr>chainId = 300, rpcUrl = ''http://127.0.0.1:3050''\<rparr>
   \<and> isInstalled switched_env installed_state = Inr False
   \<and> getL2Network no_containers_env = Inr \<lparr>chainId = 260, rpcUrl = ''http://127.0.0.1:8011''\<rparr>
   \<and> compose_status no_containers_env (installedComposeFile no_containers_env) = Inr []
   \<and> isInstalled no_containers_env installed_state = Inr False
   \<and> version (moduleConfig installed_state) = Some ''v0.4.0''
   \<and> getL2Network example_env = Inr \<lparr>chainId = 260, rpcUrl = ''http://127.0.0.1:8011''\<rparr>
   \<and> compose_status example_env (installedComposeFile example_env)
       = Inr [\<lparr>container_name = ''zkcli-block-explorer-app-1'', container_isRunning = True\<rparr>]
   \<and> isInstalled example_env installed_state = Inr True"
proof -
  note c = isInstalled_characterisation
  have n: "getL2Network no_containers_env
             = Inr \<lparr>chainId = 260, rpcUrl = ''http://127.0.0.1:8011''\<rparr>"
    "compose_status no_containers_env (installedComposeFile no_containers_env) = Inr []"
    by (simp_all add: getL2Network_def no_containers_env_def example_env_def)
  have 1: "isInstalled example_env initial_state = Inr False"
    using c [where s = initial_state and env = example_env] by (simp add: initial_config)
  have 2: "isInstalled switched_env installed_state = Inr False"
    using c [where s = installed_state and env = switched_env
        and stored = "\<lparr>chainId = 260, rpcUrl = ''http://127.0.0.1:8011''\<rparr>"
        and net = "\<lparr>chainId = 300, rpcUrl = ''http://127.0.0.1:3050''\<rparr>"]
    by (simp add: installed_config switched_network)
  have 3: "isInstalled no_containers_env installed_state = Inr False"
    using c [where s = installed_state and env = no_containers_env
        and stored = "\<lparr>chainId = 260, rpcUrl = ''http://127.0.0.1:8011''\<rparr>"
        and net = "\<lparr>chainId = 260, rpcUrl = ''http://127.0.0.1:8011''\<rparr>"]
    by (simp add: installed_config n)
  have 4: "isInstalled example_env installed_state = Inr True"
    using c [where s = installed_state and env = example_env]
    by (simp add: installed_config example_network example_status)
  show ?thesis
    using 1 2 3 4 n
    by (simp add: installed_config initial_config switched_network example_network example_status)
qed

text \<open>
  C3, as stated, fails on a record whose version is the empty string: the
  version and the stored network are both present, the resolved network is the
  stored one and a container is reported, and isInstalled returns false.
\<close>

theorem isInstalled_empty_version_counterexample:
  "version (moduleConfig empty_version_state) = Some []
   \<and> l2Network (moduleConfig empty_version_state)
       = Some \<lparr>chainId = 260, rpcUrl = ''http://127.0.0.1:8011''\<rparr>
   \<and> getL2Network example_env = Inr \<lparr>chainId = 260, rpcUrl = ''http://127.0.0.1:8011''\<rparr>
   \<and> compose_status example_env (installedComposeFile example_env)
       = Inr [\<lparr>container_name = ''zkcli-block-explorer-app-1'', container_isRunning = True\<rparr>]
   \<and> isInstalled example_env empty_version_state = Inr False"
  by (simp add: empty_version_config example_network example_status isInstalled_def falsy_def)

text \<open>
  C10. isRunning is a function of the orchestrator's status report for the
  installed manifest alone: two hosts with the same report give the same
  answer, whatever the persisted record and the resolved network are. So when a
  container of the stack runs while the stored network differs from the
  resolved one, isRunning returns true and isInstalled returns false.
\<close>

theorem isRunning_only_status:
  "(compose_status env (installedComposeFile env) = compose_status env' (installedComposeFile env')
    \<longrightarrow> isRunning env s = isRunning env' s')
   \<and> (compose_status env (installedComposeFile env) = Inr cs \<and> list_ex container_isRunning cs
      \<and> l2Network (moduleConfig s) = Some stored \<and> getL2Network env = Inr net
      \<and> (chainId net \<noteq> chainId stored \<or> rpcUrl net \<noteq> rpcUrl stored)
    \<longrightarrow> isRunning env s = Inr True \<and> isInstalled env s = Inr False)"
proof (intro conjI impI)
  assume "compose_status env (installedComposeFile env)
          = compose_status env' (installedComposeFile env')"
  then show "isRunning env s = isRunning env' s'"
    by (simp add: isRunning_def)
next
  assume h: "compose_status env (installedComposeFile env) = Inr cs \<and> list_ex container_isRunning cs
      \<and> l2Network (moduleConfig s) = Some stored \<and> getL2Network env = Inr net
      \<and> (chainId net \<noteq> chainId stored \<or> rpcUrl net \<noteq> rpcUrl stored)"
  then show "isRunning env s = Inr True"
    by (simp add: isRunning_def)
  from h show "isInstalled env s = Inr False"
    by (auto intro: isInstalled_mismatch)
qed

theorem isRunning_only_status_witness:
  "install example_env initial_state = (Inr (), installed_state)
   \<and> compose_status switched_env (installedComposeFile switched_env)
       = compose_status example_env (installedComposeFile example_env)
   \<and> isRunning switched_env installed_state = isRunning example_env initial_state
   \<and> list_ex container_isRunning
        [\<lparr>container_name = ''zkcli-block-explorer-app-1'', container_isRunning = True\<rparr>]
   \<and> isRunning switched_env installed_state = Inr True
   \<and> isInstalled switched_env installed_state = Inr False"
proof -
  note r = isRunning_only_status
  have a: "compose_status switched_env (installedComposeFile switched_env)
       = compose_status example_env (installedComposeFile example_env)"
    by (simp add: switched_status example_status)
  from r [of switched_env example_env installed_state initial_state] a
  have b: "isRunning switched_env installed_state = isRunning example_env initial_state"
    by blast
  have c: "isRunning switched_env installed_state = Inr True
           \<and> isInstalled switched_env installed_state = Inr False"
    using r [of switched_env _ installed_state _
        "[\<lparr>container_name = ''zkcli-block-explorer-app-1'', container_isRunning = True\<rparr>]"
        "\<lparr>chainId = 260, rpcUrl = ''http://127.0.0.1:8011''\<rparr>"
        "\<lparr>chainId = 300, rpcUrl = ''http://127.0.0.1:3050''\<rparr>"]
    by (simp add: switched_status switched_network installed_config)
  from a b c install_example show ?thesis by simp
qed

section \<open>Properties of install\<close>

text \<open>The steps of install other than the last leave the persisted record alone.\<close>

lemma getLatestVersion_config: "moduleConfig (snd (getLatestVersion env s)) = moduleConfig s"
  by (simp add: getLatestVersion_def split: sum.splits option.splits)

lemma fs_mkdirSync_config: "moduleConfig (snd (fs_mkdirSync env dir s)) = moduleConfig s"
  by (simp add: fs_mkdirSync_def split: option.splits)

lemma fs_copyFileSync_config: "moduleConfig (snd (fs_copyFileSync env src dst s)) = moduleConfig s"
  by (simp add: fs_copyFileSync_def split: option.splits)

lemma fs_writeFileSync_config:
  "moduleConfig (snd (fs_writeFileSync env p c s)) = moduleConfig s"
  by (simp add: fs_writeFileSync_def split: option.splits)

lemma docker_compose_create_config:
  "moduleConfig (snd (docker_compose_create env file s)) = moduleConfig s"
  by (simp add: docker_compose_create_def split: option.splits)

lemma exec_config: "moduleConfig (snd (exec env cmd s)) = moduleConfig s"
  by (simp add: exec_def)

lemma wrapped_write_config:
  "moduleConfig (snd (case fs_writeFileSync env p c s of
                        (Inl e, s') \<Rightarrow> (Inl (w e), s')
                      | (Inr u, s') \<Rightarrow> (Inr u, s'))) = moduleConfig s"
  using fs_writeFileSync_config [of env p c s]
  by (auto split: prod.splits sum.splits)

text \<open>Sequencing keeps what every step keeps.\<close>

lemma and_then_config:
  assumes "moduleConfig (snd r) = c"
    and "\<And>a s1. moduleConfig s1 = c \<Longrightarrow> moduleConfig (snd (f a s1)) = c"
  shows "moduleConfig (snd (and_then r f)) = c"
  using assms by (cases r) (auto simp: and_then_def split: sum.splits)

lemma applyAppConfig_config: "moduleConfig (snd (applyAppConfig env net s)) = moduleConfig s"
  unfolding applyAppConfig_def Let_def
  by (intro and_then_config) (simp_all add: wrapped_write_config exec_config)

lemma and_then_unchanged:
  assumes "moduleConfig (snd r) = c"
    and "\<And>a s1. moduleConfig s1 = c \<Longrightarrow> unchanged_on_error c (f a s1)"
  shows "unchanged_on_error c (and_then r f)"
proof (cases r)
  case (Pair res s1)
  show ?thesis
  proof (cases res)
    case (Inl e)
    with Pair assms(1) show ?thesis
      by (simp add: and_then_def unchanged_on_error_def)
  next
    case (Inr a)
    with Pair assms(1) have "moduleConfig s1 = c" by simp
    from assms(2) [OF this, of a] Pair Inr show ?thesis
      by (simp add: and_then_def)
  qed
qed

lemma install_try_unchanged: "unchanged_on_error (moduleConfig s) (install_try env s)"
  unfolding install_try_def Let_def
  by (intro and_then_unchanged)
     (simp_all add: getLatestVersion_config fs_mkdirSync_config fs_copyFileSync_config
        wrapped_write_config docker_compose_create_config applyAppConfig_config
        unchanged_on_error_def)

lemma install_unchanged: "unchanged_on_error (moduleConfig s) (install env s)"
  using install_try_unchanged [of s env]
  by (auto simp: install_def unchanged_on_error_def split: prod.splits sum.splits)

text \<open>A sequence that returns normally: every step did.\<close>

lemma and_then_InrE:
  assumes "and_then r f = (Inr b, s')"
  obtains a s1 where "r = (Inr a, s1)" and "f a s1 = (Inr b, s')"
  using assms by (cases r) (auto simp: and_then_def split: sum.splits)

lemma install_try_written:
  assumes "install_try env s = (Inr u, s')"
  shows "\<exists>v net. getL2Network env = Inr net \<and> fst (getLatestVersion env s) = Inr v
           \<and> moduleConfig s' = \<lparr>version = Some v, l2Network = Some net\<rparr>"
proof -
  from assms [unfolded install_try_def]
  obtain net s0 where n: "(getL2Network env, s) = (Inr net, s0)"
    and r1: "and_then (getLatestVersion env s0) (\<lambda>v s.
     and_then (if dataDirPath env \<in> directories s then (Inr (), s)
               else fs_mkdirSync env (dataDirPath env) s) (\<lambda>_ s.
     and_then (fs_copyFileSync env (getLocalFilePath env ''../docker-compose.yml'')
                 (installedComposeFile env) s) (\<lambda>_ s.
     and_then (let rpcPort = rpcPort_of (rpcUrl net)
               in case fs_writeFileSync env (getInstalledModuleFilePath env ''.env'')
                         (Text (envFileContent env v rpcPort)) s of
                    (Inl e, s') \<Rightarrow>
                      (Inl (new_Error (''Error writing to .env file: '' @ toString e)), s')
                  | (Inr u, s') \<Rightarrow> (Inr u, s')) (\<lambda>_ s.
     and_then (docker_compose_create env (installedComposeFile env) s) (\<lambda>_ s.
     and_then (applyAppConfig env net s) (\<lambda>_ s.
       (Inr (), setModuleConfig
                  ((moduleConfig s)\<lparr>version := Some v, l2Network := Some net\<rparr>) s))))))) = (Inr u, s')"
    by (rule and_then_InrE)
  from n have n1: "getL2Network env = Inr net" and s0: "s0 = s" by simp_all
  from r1 obtain v s1 where v: "getLatestVersion env s0 = (Inr v, s1)"
    and r2: "and_then (if dataDirPath env \<in> directories s1 then (Inr (), s1)
               else fs_mkdirSync env (dataDirPath env) s1) (\<lambda>_ s.
     and_then (fs_copyFileSync env (getLocalFilePath env ''../docker-compose.yml'')
                 (installedComposeFile env) s) (\<lambda>_ s.
     and_then (let rpcPort = rpcPort_of (rpcUrl net)
               in case fs_writeFileSync env (getInstalledModuleFilePath env ''.env'')
                         (Text (envFileContent env v rpcPort)) s of
                    (Inl e, s') \<Rightarrow>
                      (Inl (new_Error (''Error writing to .env file: '' @ toString e)), s')
                  | (Inr u, s') \<Rightarrow> (Inr u, s')) (\<lambda>_ s.
     and_then (docker_compose_create env (installedComposeFile env) s) (\<lambda>_ s.
     and_then (applyAppConfig env net s) (\<lambda>_ s.
       (Inr (), setModuleConfig
                  ((moduleConfig s)\<lparr>version := Some v, l2Network := Some net\<rparr>) s)))))) = (Inr u, s')"
    by (rule and_then_InrE)
  from r2 obtain s7 where
    fin: "(Inr (), setModuleConfig
                  ((moduleConfig s7)\<lparr>version := Some v, l2Network := Some net\<rparr>) s7) = (Inr u, s')"
    by (elim and_then_InrE) auto
  then have "moduleConfig s' = \<lparr>version = Some v, l2Network = Some net\<rparr>"
    by (auto simp: setModuleConfig_def)
  with n1 v s0 show ?thesis by auto
qed

text \<open>
  C1. An install that fails, at whatever step, leaves the persisted record
  exactly as it was before the call. An install that returns normally has
  written the resolved version and the resolved network to it.
\<close>

theorem install_writes_config_last:
  "(fst (install env s) = Inl e \<longrightarrow> moduleConfig (snd (install env s)) = moduleConfig s)
   \<and> (fst (install env s) = Inr u \<longrightarrow>
        (\<exists>v net. getL2Network env = Inr net \<and> fst (getLatestVersion env s) = Inr v
           \<and> moduleConfig (snd (install env s)) = \<lparr>version = Some v, l2Network = Some net\<rparr>))"
proof (intro conjI impI)
  assume "fst (install env s) = Inl e"
  with install_unchanged [of s env] show "moduleConfig (snd (install env s)) = moduleConfig s"
    by (simp add: unchanged_on_error_def)
next
  assume a: "fst (install env s) = Inr u"
  then have "install_try env s = (Inr u, snd (install env s))"
    by (auto simp: install_def split: prod.splits sum.splits if_splits)
  from install_try_written [OF this]
  show "\<exists>v net. getL2Network env = Inr net \<and> fst (getLatestVersion env s) = Inr v
           \<and> moduleConfig (snd (install env s)) = \<lparr>version = Some v, l2Network = Some net\<rparr>" .
qed

text \<open>An install on the host without a Docker daemon.\<close>

lemma install_no_docker:
  "fst (install no_docker_env initial_state)
     = Inl (JsError ''Error'' ''Command exited with code 1: Cannot connect to the Docker daemon'')
   \<and> files (snd (install no_docker_env initial_state))
        ''/home/user/.local/share/zkcli-block-explorer/.env''
     = Some (Text (''VERSION=v0.4.0'' @ [CHR 0x0A] @ ''RPC_PORT=8011''))"
  by (simp add: install_def install_try_def and_then_def getL2Network_def getLatestVersion_def
      falsy_def fs_mkdirSync_def fs_copyFileSync_def fs_writeFileSync_def
      docker_compose_create_def envFileContent_def rpcPort_example
      getLocalFilePath_def getInstalledModuleFilePath_def installedComposeFile_def path_join_def
      REPO_URL_def no_docker_env_def example_env_def initial_state_def Let_def)

theorem install_writes_config_last_witness:
  "fst (install no_docker_env initial_state)
     = Inl (JsError ''Error'' ''Command exited with code 1: Cannot connect to the Docker daemon'')
   \<and> files (snd (install no_docker_env initial_state))
        ''/home/user/.local/share/zkcli-block-explorer/.env''
     = Some (Text (''VERSION=v0.4.0'' @ [CHR 0x0A] @ ''RPC_PORT=8011''))
   \<and> moduleConfig (snd (install no_docker_env initial_state)) = \<lparr>version = None, l2Network = None\<rparr>
   \<and> fst (install example_env initial_state) = Inr ()
   \<and> moduleConfig (snd (install example_env initial_state))
     = \<lparr>version = Some ''v0.4.0'',
        l2Network = Some \<lparr>chainId = 260, rpcUrl = ''http://127.0.0.1:8011''\<rparr>\<rparr>"
proof -
  from install_writes_config_last [of no_docker_env initial_state
      "JsError ''Error'' ''Command exited with code 1: Cannot connect to the Docker daemon''"]
    install_no_docker
  have "moduleConfig (snd (install no_docker_env initial_state)) = moduleConfig initial_state"
    by blast
  with install_no_docker install_example show ?thesis
    by (simp add: initial_config installed_config)
qed

text \<open>The test of the \<^verbatim>\<open>catch\<close> block sees through a prefix, so through the wrappers.\<close>

lemma includes_str_append: "includes_str b sub \<Longrightarrow> includes_str (a @ b) sub"
  by (induction a) auto

lemma toString_new_Error:
  "toString (new_Error m) = (if m = [] then ''Error'' else ''Error: '' @ m)"
  by (simp add: new_Error_def)

lemma includes_str_wrapped:
  assumes "includes_str (toString e) sub" and "p \<noteq> []"
  shows "includes_str (toString (new_Error (p @ toString e))) sub"
proof -
  from assms(2) have "toString (new_Error (p @ toString e)) = (''Error: '' @ p) @ toString e"
    by (simp add: toString_new_Error)
  then show ?thesis
    using includes_str_append [OF assms(1), of "''Error: '' @ p"] by (simp only:)
qed

lemma provisioning_error_install_try:
  assumes "provisioning_error env s = Some e"
  shows "fst (install_try env s) = Inl e
         \<or> fst (install_try env s)
             = Inl (new_Error (''Error writing to .env file: '' @ toString e))"
proof -
  from assms obtain net where net: "getL2Network env = Inr net"
    by (auto simp: provisioning_error_def split: sum.splits)
  from assms net obtain v s1 where v: "getLatestVersion env s = (Inr v, s1)"
    by (auto simp: provisioning_error_def split: sum.splits prod.splits)
  from v have d: "directories s1 = directories s"
    by (auto simp: getLatestVersion_def split: if_splits sum.splits option.splits)
  let ?mk = "if dataDirPath env \<in> directories s1 then None else mkdirSync env (dataDirPath env)"
  let ?cp = "copyFileSync env (getLocalFilePath env ''../docker-compose.yml'')
               (installedComposeFile env)"
  let ?wr = "writeFileSync env (getInstalledModuleFilePath env ''.env'')
               (Text (envFileContent env v (rpcPort_of (rpcUrl net))))"
  from assms net v have c: "(case ?mk of Some e \<Rightarrow> Some e
      | None \<Rightarrow> (case ?cp of Some e \<Rightarrow> Some e | None \<Rightarrow> ?wr)) = Some e"
    by (simp add: provisioning_error_def)
  show ?thesis
  proof (cases ?mk)
    case (Some e1)
    with c have "e1 = e" by simp
    with Some net v have "fst (install_try env s) = Inl e"
      by (simp add: install_try_def and_then_def fs_mkdirSync_def split: if_splits)
    then show ?thesis ..
  next
    case mk: None
    show ?thesis
    proof (cases ?cp)
      case (Some e1)
      with c mk have "e1 = e" by simp
      with Some mk net v have "fst (install_try env s) = Inl e"
        by (simp add: install_try_def and_then_def fs_mkdirSync_def fs_copyFileSync_def
            split: if_splits)
      then show ?thesis ..
    next
      case cp: None
      with c mk have "?wr = Some e" by simp
      with cp mk net v have "fst (install_try env s)
             = Inl (new_Error (''Error writing to .env file: '' @ toString e))"
        by (simp add: install_try_def and_then_def fs_mkdirSync_def fs_copyFileSync_def
            fs_writeFileSync_def Let_def split: if_splits)
      then show ?thesis ..
    qed
  qed
qed

lemma install_by_message:
  "fst (install env s) =
     (case fst (install_try env s) of
        Inl e \<Rightarrow> if includes_str (toString e) ''operation not permitted''
                 then Inl permission_hint else Inl e
      | Inr u \<Rightarrow> Inr u)"
  by (simp add: install_def split: prod.splits sum.splits)

text \<open>
  C7 (as the code has it). An error thrown inside install whose string form
  contains "operation not permitted" is replaced by the one error that tells
  the user to run with administrator rights; this is what happens to a
  filesystem failure with that text during file provisioning, also when the
  failure of writing the environment file has been wrapped. Every other error
  is propagated to the caller unchanged.
\<close>

theorem install_rethrows_by_message:
  "(fst (install_try env s) = Inl e \<and> includes_str (toString e) ''operation not permitted''
      \<longrightarrow> fst (install env s) = Inl permission_hint)
   \<and> (fst (install_try env s) = Inl e \<and> \<not> includes_str (toString e) ''operation not permitted''
      \<longrightarrow> fst (install env s) = Inl e)
   \<and> (provisioning_error env s = Some e \<and> includes_str (toString e) ''operation not permitted''
      \<longrightarrow> fst (install env s) = Inl permission_hint)
   \<and> (fst (install env s) = Inl e \<longrightarrow> e = permission_hint \<or> fst (install_try env s) = Inl e)"
proof (intro conjI impI)
  assume "fst (install_try env s) = Inl e \<and> includes_str (toString e) ''operation not permitted''"
  then show "fst (install env s) = Inl permission_hint"
    by (simp add: install_by_message)
next
  assume "fst (install_try env s) = Inl e
          \<and> \<not> includes_str (toString e) ''operation not permitted''"
  then show "fst (install env s) = Inl e"
    by (simp add: install_by_message)
next
  assume h: "provisioning_error env s = Some e
             \<and> includes_str (toString e) ''operation not permitted''"
  then have p: "provisioning_error env s = Some e"
    and i: "includes_str (toString e) ''operation not permitted''"
    by simp_all
  from provisioning_error_install_try [OF p]
  show "fst (install env s) = Inl permission_hint"
  proof
    assume "fst (install_try env s) = Inl e"
    with i show ?thesis by (simp add: install_by_message)
  next
    assume "fst (install_try env s)
             = Inl (new_Error (''Error writing to .env file: '' @ toString e))"
    moreover have "includes_str
        (toString (new_Error (''Error writing to .env file: '' @ toString e)))
        ''operation not permitted''"
      by (rule includes_str_wrapped [OF i]) simp
    ultimately show ?thesis by (simp only: install_by_message sum.case if_True)
  qed
next
  assume "fst (install env s) = Inl e"
  then show "e = permission_hint \<or> fst (install_try env s) = Inl e"
    by (auto simp: install_by_message split: sum.splits if_splits)
qed

text \<open>Installs on the hosts that refuse the data directory or the containers.\<close>

lemma eperm_provisioning:
  "provisioning_error eperm_env initial_state
     = Some (JsError ''Error''
         ''EPERM: operation not permitted, mkdir /home/user/.local/share/zkcli-block-explorer'')"
  by (simp add: provisioning_error_def getL2Network_def getLatestVersion_def falsy_def
      REPO_URL_def eperm_env_def example_env_def initial_state_def)

lemma eperm_includes:
  "includes_str (toString (JsError ''Error''
         ''EPERM: operation not permitted, mkdir /home/user/.local/share/zkcli-block-explorer''))
     ''operation not permitted''"
  by simp

lemma install_try_no_docker:
  "fst (install_try no_docker_env initial_state)
     = Inl (JsError ''Error'' ''Command exited with code 1: Cannot connect to the Docker daemon'')"
  by (simp add: install_try_def and_then_def getL2Network_def getLatestVersion_def
      falsy_def fs_mkdirSync_def fs_copyFileSync_def fs_writeFileSync_def
      docker_compose_create_def envFileContent_def rpcPort_example
      getLocalFilePath_def getInstalledModuleFilePath_def installedComposeFile_def path_join_def
      REPO_URL_def no_docker_env_def example_env_def initial_state_def Let_def)

lemma no_docker_not_includes:
  "\<not> includes_str (toString (JsError ''Error''
         ''Command exited with code 1: Cannot connect to the Docker daemon''))
     ''operation not permitted''"
  by simp

theorem install_rethrows_by_message_witness:
  "provisioning_error eperm_env initial_state
     = Some (JsError ''Error''
         ''EPERM: operation not permitted, mkdir /home/user/.local/share/zkcli-block-explorer'')
   \<and> includes_str (toString (JsError ''Error''
         ''EPERM: operation not permitted, mkdir /home/user/.local/share/zkcli-block-explorer''))
       ''operation not permitted''
   \<and> fst (install eperm_env initial_state) = Inl permission_hint
   \<and> fst (install_try no_docker_env initial_state)
     = Inl (JsError ''Error'' ''Command exited with code 1: Cannot connect to the Docker daemon'')
   \<and> fst (install no_docker_env initial_state)
     = Inl (JsError ''Error'' ''Command exited with code 1: Cannot connect to the Docker daemon'')"
proof -
  note t = install_rethrows_by_message
  from t [of eperm_env initial_state "JsError ''Error''
         ''EPERM: operation not permitted, mkdir /home/user/.local/share/zkcli-block-explorer''"]
    eperm_provisioning eperm_includes
  have a: "fst (install eperm_env initial_state) = Inl permission_hint"
    by blast
  from t [of no_docker_env initial_state
      "JsError ''Error'' ''Command exited with code 1: Cannot connect to the Docker daemon''"]
    install_try_no_docker no_docker_not_includes
  have b: "fst (install no_docker_env initial_state)
     = Inl (JsError ''Error'' ''Command exited with code 1: Cannot connect to the Docker daemon'')"
    by blast
  from a b eperm_provisioning eperm_includes install_try_no_docker show ?thesis
    by blast
qed

lemma install_try_docker_denied:
  "fst (install_try docker_denied_env initial_state)
     = Inl (JsError ''Error''
         ''Command exited with code 1: Error response from daemon: operation not permitted'')"
  by (simp add: install_try_def and_then_def getL2Network_def getLatestVersion_def
      falsy_def fs_mkdirSync_def fs_copyFileSync_def fs_writeFileSync_def
      docker_compose_create_def envFileContent_def rpcPort_example
      getLocalFilePath_def getInstalledModuleFilePath_def installedComposeFile_def path_join_def
      REPO_URL_def docker_denied_env_def example_env_def initial_state_def Let_def)

lemma docker_denied_includes:
  "includes_str (toString (JsError ''Error''
         ''Command exited with code 1: Error response from daemon: operation not permitted''))
     ''operation not permitted''"
  by simp

text \<open>
  C7, as stated, fails when an error that is no filesystem failure carries the
  same text: here no step of file provisioning fails, container creation
  throws, and install does not propagate that error unchanged but replaces it
  by the hint about administrator rights.
\<close>

theorem install_docker_denied_counterexample:
  "provisioning_error docker_denied_env initial_state = None
   \<and> fst (install_try docker_denied_env initial_state)
     = Inl (JsError ''Error''
         ''Command exited with code 1: Error response from daemon: operation not permitted'')
   \<and> fst (install docker_denied_env initial_state) = Inl permission_hint
   \<and> permission_hint
     \<noteq> JsError ''Error''
         ''Command exited with code 1: Error response from daemon: operation not permitted''"
proof -
  have "provisioning_error docker_denied_env initial_state = None"
    by (simp add: provisioning_error_def getL2Network_def getLatestVersion_def falsy_def
      REPO_URL_def docker_denied_env_def example_env_def initial_state_def)
  moreover have "fst (install docker_denied_env initial_state) = Inl permission_hint"
    using install_try_docker_denied docker_denied_includes
    by (simp add: install_by_message)
  moreover have "permission_hint
     \<noteq> JsError ''Error''
         ''Command exited with code 1: Error response from daemon: operation not permitted''"
    by (simp add: permission_hint_def new_Error_def)
  ultimately show ?thesis
    using install_try_docker_denied by simp
qed

text \<open>The port that install writes to the environment file.\<close>

lemma split_on_nonempty: "split_on c xs \<noteq> []"
  by (induction xs) (auto split: list.splits)

lemma split_on_without: "c \<notin> set xs \<Longrightarrow> split_on c xs = [xs]"
  by (induction xs) auto

lemma split_on_suffix:
  "c \<notin> set suffix \<Longrightarrow> \<exists>ws. ws \<noteq> [] \<and> split_on c (pre @ c # suffix) = ws @ [suffix]"
proof (induction pre)
  case Nil
  then have "split_on c ([] @ c # suffix) = [[]] @ [suffix]"
    by (simp add: split_on_without)
  then show ?case by blast
next
  case (Cons x pre)
  then obtain w ws where ws: "split_on c (pre @ c # suffix) = (w # ws) @ [suffix]"
    by (metis list.exhaust)
  show ?case
  proof (cases "x = c")
    case True
    with ws have "split_on c ((x # pre) @ c # suffix) = ([] # w # ws) @ [suffix]" by simp
    then show ?thesis by blast
  next
    case False
    with ws have "split_on c ((x # pre) @ c # suffix) = ((x # w) # ws) @ [suffix]" by simp
    then show ?thesis by blast
  qed
qed

lemma at_last_snoc: "at_last (ws @ [x]) = Some x"
proof -
  have "at_last xs = Some (last xs)" if "xs \<noteq> []" for xs :: "'a list"
    using that by (cases xs) (simp_all add: at_last_def)
  from this [of "ws @ [x]"] show ?thesis by simp
qed

lemma rpcPort_of_port_suffix:
  assumes "port \<noteq> []" and "CHR '':'' \<notin> set port"
  shows "rpcPort_of (pre @ '':'' @ port) = port"
proof -
  from split_on_suffix [OF assms(2), of pre] obtain ws where
    "split_on CHR '':'' (pre @ '':'' @ port) = ws @ [port]" by auto
  with assms(1) show ?thesis
    by (simp add: rpcPort_of_def at_last_snoc)
qed

lemma rpcPort_of_no_colon:
  assumes "url \<noteq> []" and "CHR '':'' \<notin> set url"
  shows "rpcPort_of url = url"
  using assms by (simp add: rpcPort_of_def at_last_def split_on_without)

text \<open>An install for a target network whose URL has no port.\<close>

lemma rpcPort_sepolia: "rpcPort_of ''https://sepolia.era.zksync.dev'' = ''//sepolia.era.zksync.dev''"
  by (simp add: rpcPort_of_def at_last_def)

lemma install_no_port:
  "fst (install no_port_env initial_state) = Inr ()
   \<and> files (snd (install no_port_env initial_state))
        (getInstalledModuleFilePath no_port_env ''.env'')
     = Some (Text (''VERSION=v0.4.0'' @ [CHR 0x0A] @ ''RPC_PORT=//sepolia.era.zksync.dev''))"
  by (simp add: install_def install_try_def and_then_def getL2Network_def getLatestVersion_def
      falsy_def fs_mkdirSync_def fs_copyFileSync_def fs_writeFileSync_def
      docker_compose_create_def applyAppConfig_def exec_def setModuleConfig_def
      envFileContent_def rpcPort_sepolia
      getLocalFilePath_def getInstalledModuleFilePath_def installedComposeFile_def path_join_def
      REPO_URL_def APP_RUNTIME_CONFIG_PATH_def no_port_env_def example_env_def initial_state_def
      Let_def)

text \<open>
  C8 on a target network whose URL has no port: the last piece of the URL after
  a colon is the host part, it is not empty, and install writes it to the
  environment file as RPC_PORT instead of the fallback 3050.
\<close>

theorem install_env_file_without_port:
  "getL2Network no_port_env = Inr \<lparr>chainId = 300, rpcUrl = ''https://sepolia.era.zksync.dev''\<rparr>
   \<and> rpcPort_of ''https://sepolia.era.zksync.dev'' = ''//sepolia.era.zksync.dev''
   \<and> fst (install no_port_env initial_state) = Inr ()
   \<and> files (snd (install no_port_env initial_state))
        (getInstalledModuleFilePath no_port_env ''.env'')
     = Some (Text (''VERSION=v0.4.0'' @ [CHR 0x0A] @ ''RPC_PORT=//sepolia.era.zksync.dev''))"
  using install_no_port rpcPort_sepolia
  by (simp add: getL2Network_def no_port_env_def)

section \<open>Properties of the cleanup before start\<close>

text \<open>The commands that the cleanup issues.\<close>

lemma exec_commands: "commands (snd (exec env cmd s)) = commands s @ [cmd]"
  by (simp add: exec_def)

lemma exec_all_commands: "commands (snd (exec_all env cmds s)) = commands s @ cmds"
proof (induction cmds arbitrary: s)
  case Nil
  show ?case by simp
next
  case (Cons cmd cmds)
  obtain rs s2 where r: "exec_all env cmds (s\<lparr>commands := commands s @ [cmd]\<rparr>) = (rs, s2)"
    by (cases "exec_all env cmds (s\<lparr>commands := commands s @ [cmd]\<rparr>)")
  from Cons.IH [of "s\<lparr>commands := commands s @ [cmd]\<rparr>"] r
  have "commands s2 = commands s @ cmd # cmds" by simp
  with r show ?case
    by (simp add: exec_def split: sum.splits)
qed

lemma exec_all_fails:
  "isl (fst (exec_all env cmds s)) = list_ex (\<lambda>cmd. isl (executeCommand env cmd)) cmds"
proof (induction cmds arbitrary: s)
  case Nil
  show ?case by simp
next
  case (Cons cmd cmds)
  obtain rs s2 where r: "exec_all env cmds (s\<lparr>commands := commands s @ [cmd]\<rparr>) = (rs, s2)"
    by (cases "exec_all env cmds (s\<lparr>commands := commands s @ [cmd]\<rparr>)")
  from Cons.IH [of "s\<lparr>commands := commands s @ [cmd]\<rparr>"] r
  have "list_ex (\<lambda>cmd. isl (executeCommand env cmd)) cmds = isl rs" by simp
  with r show ?case
    by (cases rs; cases "executeCommand env cmd") (simp_all add: exec_def)
qed

text \<open>What the cleanup issues after the three container removals.\<close>

lemma cleanup_commands:
  "commands (snd (cleanupIndexedData env s))
     = commands s @ rm_services
       @ (if list_ex (\<lambda>cmd. isl (executeCommand env cmd)) rm_services then []
          else (case executeCommand env ''docker volume ls'' of
                  Inl e \<Rightarrow> [''docker volume ls'']
                | Inr volumes \<Rightarrow>
                    if includes_str volumes (package_name env @ ''_postgres'')
                    then [''docker volume ls'',
                          ''docker volume rm '' @ package_name env @ ''_postgres'']
                    else [''docker volume ls'']))"
proof (cases "exec_all env rm_services s")
  case (Pair r s1)
  from exec_all_commands [of env rm_services s] Pair
  have c1: "commands s1 = commands s @ rm_services" by simp
  from exec_all_fails [of env rm_services s] Pair
  have f: "list_ex (\<lambda>cmd. isl (executeCommand env cmd)) rm_services = isl r" by simp
  have u: "cleanupIndexedData env s =
     and_then (r, s1)
       (\<lambda>_ s.
          let fullDatabaseName = package_name env @ ''_'' @ DOCKER_DATABASE_VOLUME_NAME
          in and_then (exec env ''docker volume ls'' s) (\<lambda>volumes s.
               if includes_str volumes fullDatabaseName
               then and_then (exec env (''docker volume rm '' @ fullDatabaseName) s)
                      (\<lambda>_ s. (Inr (), s))
               else (Inr (), s)))"
    using Pair by (simp add: cleanupIndexedData_def rm_services_def)
  show ?thesis
  proof (cases r)
    case (Inl e)
    with c1 show ?thesis
      unfolding u f by (simp add: and_then_def)
  next
    case (Inr outs)
    show ?thesis
    proof (cases "executeCommand env ''docker volume ls''")
      case ls: (Inl e)
      with Inr c1 show ?thesis
        unfolding u f by (simp add: and_then_def exec_def)
    next
      case ls: (Inr volumes)
      show ?thesis
      proof (cases "includes_str volumes (package_name env @ ''_postgres'')")
        case False
        with Inr c1 ls show ?thesis
          unfolding u f
          by (simp add: and_then_def exec_def Let_def DOCKER_DATABASE_VOLUME_NAME_def)
      next
        case True
        with Inr c1 ls show ?thesis
          unfolding u f
          by (simp add: and_then_def exec_def Let_def DOCKER_DATABASE_VOLUME_NAME_def
              split: sum.splits)
      qed
    qed
  qed
qed

text \<open>The cleanup on the example host, which lists the module's volume and another one.\<close>

lemma cleanup_example:
  "commands (snd (cleanupIndexedData example_env initial_state))
     = rm_services @ [''docker volume ls'', ''docker volume rm zkcli-block-explorer_postgres'']"
  by (simp add: cleanupIndexedData_def and_then_def exec_def rm_services_def Let_def
      DOCKER_DATABASE_VOLUME_NAME_def example_env_def initial_state_def)

text \<open>
  C4. Whatever the orchestrator lists as volumes, the commands that the cleanup
  adds to those issued before are exactly these, in this order: the removal of
  the three containers (worker, api, postgres); then, unless one of these
  failed, the listing of the volumes; then, if the listing succeeded and
  contains the computed name (the package name followed by "_postgres"), the
  one command "docker volume rm" of exactly that name. So every command issued
  is one of these five, and no volume of another name is named in any of them.
\<close>

theorem cleanupIndexedData_removes_only_its_volume:
  "commands (snd (cleanupIndexedData env s))
     = commands s
       @ [''docker compose rm -fsv worker'', ''docker compose rm -fsv api'',
          ''docker compose rm -fsv postgres'']
       @ (if list_ex (\<lambda>cmd. isl (executeCommand env cmd))
               [''docker compose rm -fsv worker'', ''docker compose rm -fsv api'',
                ''docker compose rm -fsv postgres'']
          then []
          else (case executeCommand env ''docker volume ls'' of
                  Inl e \<Rightarrow> [''docker volume ls'']
                | Inr volumes \<Rightarrow>
                    if includes_str volumes (package_name env @ ''_postgres'')
                    then [''docker volume ls'',
                          ''docker volume rm '' @ package_name env @ ''_postgres'']
                    else [''docker volume ls'']))
   \<and> set (drop (length (commands s)) (commands (snd (cleanupIndexedData env s))))
       \<subseteq> {''docker compose rm -fsv worker'', ''docker compose rm -fsv api'',
          ''docker compose rm -fsv postgres'', ''docker volume ls'',
          ''docker volume rm '' @ package_name env @ ''_postgres''}"
proof -
  define rest where "rest =
     (if list_ex (\<lambda>cmd. isl (executeCommand env cmd)) rm_services then []
      else (case executeCommand env ''docker volume ls'' of
              Inl e \<Rightarrow> [''docker volume ls'']
            | Inr volumes \<Rightarrow>
                if includes_str volumes (package_name env @ ''_postgres'')
                then [''docker volume ls'',
                      ''docker volume rm '' @ package_name env @ ''_postgres'']
                else [''docker volume ls'']))"
  have c: "commands (snd (cleanupIndexedData env s)) = commands s @ rm_services @ rest"
    unfolding rest_def by (rule cleanup_commands)
  have r: "set rest \<subseteq> {''docker volume ls'',
                ''docker volume rm '' @ package_name env @ ''_postgres''}"
    unfolding rest_def by (auto split: sum.splits)
  have d: "drop (length (commands s)) (commands (snd (cleanupIndexedData env s)))
           = rm_services @ rest"
    by (simp add: c)
  have m: "set rm_services = {''docker compose rm -fsv worker'', ''docker compose rm -fsv api'',
          ''docker compose rm -fsv postgres''}"
    by (simp add: rm_services_def)
  have "set (rm_services @ rest)
       \<subseteq> {''docker compose rm -fsv worker'', ''docker compose rm -fsv api'',
          ''docker compose rm -fsv postgres'', ''docker volume ls'',
          ''docker volume rm '' @ package_name env @ ''_postgres''}"
    using r unfolding set_append m by blast
  with c [unfolded rest_def rm_services_def] show ?thesis
    unfolding d by (intro conjI)
qed

theorem cleanupIndexedData_removes_only_its_volume_witness:
  "executeCommand example_env ''docker volume ls''
     = Inr (''local zkcli-block-explorer_postgres'' @ [CHR 0x0A] @ ''local other_postgres'')
   \<and> commands (snd (cleanupIndexedData example_env initial_state))
     = [''docker compose rm -fsv worker'', ''docker compose rm -fsv api'',
        ''docker compose rm -fsv postgres'', ''docker volume ls'',
        ''docker volume rm zkcli-block-explorer_postgres'']"
proof -
  have ls: "executeCommand example_env ''docker volume ls''
     = Inr (''local zkcli-block-explorer_postgres'' @ [CHR 0x0A] @ ''local other_postgres'')"
    by (simp add: example_env_def)
  have ok: "\<not> list_ex (\<lambda>cmd. isl (executeCommand example_env cmd))
               [''docker compose rm -fsv worker'', ''docker compose rm -fsv api'',
                ''docker compose rm -fsv postgres'']"
    by (simp add: example_env_def)
  have p: "package_name example_env = ''zkcli-block-explorer''"
    by (simp add: example_env_def)
  have i: "includes_str
             (''local zkcli-block-explorer_postgres'' @ [CHR 0x0A] @ ''local other_postgres'')
             (''zkcli-block-explorer'' @ ''_postgres'')"
    by simp
  have c: "commands initial_state = []"
    by (simp add: initial_state_def)
  from cleanupIndexedData_removes_only_its_volume [of example_env initial_state]
  have "commands (snd (cleanupIndexedData example_env initial_state))
     = [''docker compose rm -fsv worker'', ''docker compose rm -fsv api'',
        ''docker compose rm -fsv postgres'', ''docker volume ls'',
        ''docker volume rm zkcli-block-explorer_postgres'']"
    unfolding c p ls using ok i by (simp only: if_False if_True sum.case append.simps)
  with ls show ?thesis by (intro conjI)
qed

end
